theory Spec2Isabelle
  imports Complex_Main "HOL-Library.Word"
begin

unbundle bit_operations_syntax

section \<open>Python values and control flow\<close>

text \<open>
  The program is \<^verbatim>\<open>scenarios/discovery_collab_simulation.py\<close>. Python integers are
  \<^typ>\<open>int\<close>. A finite Python float is read as an exact rational: \<^verbatim>\<open>0.2\<close> is
  \<open>2 / 10\<close>, and the rounding of IEEE doubles is not part of this model. The floats that
  only ever hold a constant of the source (the phase starts, the discovery interval) are
  \<^typ>\<open>rat\<close>. The floats that \<^verbatim>\<open>argparse\<close> reads with \<^verbatim>\<open>type=float\<close> can also be
  \<^verbatim>\<open>inf\<close>, \<^verbatim>\<open>-inf\<close> and \<^verbatim>\<open>nan\<close>, and are of the type \<open>py_float\<close>. An exception is a
  value \<open>Inl e\<close> of a sum type.
\<close>

datatype py_error = ZeroDivisionError | KeyError | OverflowError | ValueError

datatype py_float = Finite rat | PosInf | NegInf | NaN

definition py_bind :: "py_error + 'a \<Rightarrow> ('a \<Rightarrow> py_error + 'b) \<Rightarrow> py_error + 'b" where
  "py_bind m f = (case m of Inl e \<Rightarrow> Inl e | Inr x \<Rightarrow> f x)"

text \<open>\<^verbatim>\<open>range(n)\<close>: the integers \<open>0, ..., n - 1\<close>, empty when \<open>n \<le> 0\<close>.\<close>

definition py_range :: "int \<Rightarrow> int list" where
  "py_range n = [0..n - 1]"

text \<open>\<^verbatim>\<open>for x in xs: body\<close> over a state, stopping at the first exception.\<close>

fun for_loop :: "'a list \<Rightarrow> ('a \<Rightarrow> 's \<Rightarrow> py_error + 's) \<Rightarrow> 's \<Rightarrow> py_error + 's" where
  "for_loop [] body s = Inr s"
| "for_loop (x # xs) body s =
     (case body x s of Inl e \<Rightarrow> Inl e | Inr s' \<Rightarrow> for_loop xs body s')"

text \<open>\<^verbatim>\<open>a % b\<close> on integers: floored, the sign of the divisor, as \<open>mod\<close> on \<^typ>\<open>int\<close>.\<close>

definition py_mod :: "int \<Rightarrow> int \<Rightarrow> py_error + int" where
  "py_mod a b = (if b = 0 then Inl ZeroDivisionError else Inr (a mod b))"

text \<open>\<^verbatim>\<open>a + b\<close> on floats.\<close>

fun float_add :: "py_float \<Rightarrow> py_float \<Rightarrow> py_float" where
  "float_add (Finite a) (Finite b) = Finite (a + b)"
| "float_add NaN b = NaN"
| "float_add a NaN = NaN"
| "float_add PosInf NegInf = NaN"
| "float_add NegInf PosInf = NaN"
| "float_add PosInf b = PosInf"
| "float_add a PosInf = PosInf"
| "float_add NegInf b = NegInf"
| "float_add a NegInf = NegInf"

text \<open>
  \<^verbatim>\<open>a / b\<close> on floats, for a finite divisor: a zero divisor raises whatever the
  dividend is.
\<close>

definition py_truediv :: "py_float \<Rightarrow> rat \<Rightarrow> py_error + py_float" where
  "py_truediv a b =
     (if b = 0 then Inl ZeroDivisionError
      else Inr (case a of
                  Finite x \<Rightarrow> Finite (x / b)
                | PosInf \<Rightarrow> (if 0 < b then PosInf else NegInf)
                | NegInf \<Rightarrow> (if 0 < b then NegInf else PosInf)
                | NaN \<Rightarrow> NaN))"

text \<open>
  \<^verbatim>\<open>int(x)\<close> on a float truncates towards zero; it raises OverflowError on an
  infinity and ValueError on NaN.
\<close>

definition py_int :: "py_float \<Rightarrow> py_error + int" where
  "py_int x =
     (case x of
        Finite q \<Rightarrow> Inr (if 0 \<le> q then \<lfloor>q\<rfloor> else \<lceil>q\<rceil>)
      | PosInf \<Rightarrow> Inl OverflowError
      | NegInf \<Rightarrow> Inl OverflowError
      | NaN \<Rightarrow> Inl ValueError)"

section \<open>Data model\<close>

text \<open>
  The node kinds are the strings \<^verbatim>\<open>'fixed'\<close> and \<^verbatim>\<open>'mobile'\<close> of the source. A key of
  the neighbour dictionary is \<^verbatim>\<open>(kind, index)\<close>; an entry of its lists is
  \<^verbatim>\<open>(index, kind)\<close>. A node handle \<^verbatim>\<open>get_fixed_nodes().Get(i)\<close> and the printed name
  \<^verbatim>\<open>f"Fixed-{i}"\<close> are both represented by \<open>(Fixed, i)\<close>.
\<close>

datatype kind = Fixed | Mobile

type_synonym participant = "kind \<times> int"

type_synonym neighbor = "int \<times> kind"

type_synonym neighbors = "participant \<rightharpoonup> neighbor list"

record SimulationConfig =
  num_fixed_nodes :: int
  num_mobile_nodes :: int
  sim_time :: py_float
  distance :: py_float
  enable_pcap :: bool
  verbose :: bool
  discovery_start :: rat
  discovery_duration :: py_float
  collab_start :: rat
  collab_duration :: py_float
  discovery_port :: int
  collab_base_port :: int
  discovery_range :: rat
  discovery_interval :: rat
  network_base :: string
  network_mask :: string

text \<open>\<^verbatim>\<open>SimulationConfig.__init__\<close>.\<close>

definition SimulationConfig_init :: SimulationConfig where
  "SimulationConfig_init =
     \<lparr>num_fixed_nodes = 2, num_mobile_nodes = 4,
      sim_time = Finite 100, distance = Finite 50,
      enable_pcap = False, verbose = True,
      discovery_start = 2, discovery_duration = Finite 20,
      collab_start = 25, collab_duration = Finite 70,
      discovery_port = 8000, collab_base_port = 9000,
      discovery_range = 80, discovery_interval = 2,
      network_base = ''10.1.1.0'', network_mask = ''255.255.255.0''\<rparr>"

text \<open>
  The command line after \<^verbatim>\<open>argparse\<close>: an option that was not given is \<open>None\<close> and
  takes the default, which is the current field of the configuration; the two
  \<^verbatim>\<open>store_true\<close> flags are \<open>True\<close> when present. An option of \<^verbatim>\<open>type=float\<close> accepts
  \<^verbatim>\<open>inf\<close> and \<^verbatim>\<open>nan\<close> as well as a finite number.
\<close>

record cli_args =
  arg_numFixed :: "int option"
  arg_numMobile :: "int option"
  arg_simTime :: "py_float option"
  arg_distance :: "py_float option"
  arg_pcap :: bool
  arg_verbose :: bool
  arg_discoveryDuration :: "py_float option"
  arg_collabDuration :: "py_float option"

definition arg_or_default :: "'a option \<Rightarrow> 'a \<Rightarrow> 'a" where
  "arg_or_default a d = (case a of None \<Rightarrow> d | Some v \<Rightarrow> v)"

definition parse_arguments :: "SimulationConfig \<Rightarrow> cli_args \<Rightarrow> SimulationConfig" where
  "parse_arguments self args =
     self\<lparr>num_fixed_nodes := arg_or_default (arg_numFixed args) (num_fixed_nodes self),
          num_mobile_nodes := arg_or_default (arg_numMobile args) (num_mobile_nodes self),
          sim_time := arg_or_default (arg_simTime args) (sim_time self),
          distance := arg_or_default (arg_distance args) (distance self),
          enable_pcap := (arg_pcap args \<or> enable_pcap self),
          verbose := (arg_verbose args \<or> verbose self),
          discovery_duration :=
            arg_or_default (arg_discoveryDuration args) (discovery_duration self),
          collab_duration := arg_or_default (arg_collabDuration args) (collab_duration self)\<rparr>"

text \<open>
  Addresses and endpoints of the simulation engine. An \<open>Ipv4Address\<close> is known by the
  dotted-quad text it was made from; the addresses of the interface containers
  (\<^verbatim>\<open>GetAddress(i)\<close>) are engine values and enter the model as functions of the index.
\<close>

datatype Ipv4Address = Ipv4Address string

datatype Ipv4Mask = Ipv4Mask string

datatype InetSocketAddress = InetSocketAddress Ipv4Address int

type_synonym interfaces = "int \<Rightarrow> Ipv4Address"

text \<open>
  An installed \<^verbatim>\<open>UdpEchoServer\<close>: its node, its port and its \<^verbatim>\<open>Start\<close>/\<^verbatim>\<open>Stop\<close>
  times.
\<close>

record server_app =
  srv_node :: participant
  srv_port :: int
  srv_start :: rat
  srv_stop :: py_float

text \<open>
  An installed \<^verbatim>\<open>UdpEchoClient\<close>: its node, the remote endpoint it sends to, its
  three attributes and its \<^verbatim>\<open>Start\<close>/\<^verbatim>\<open>Stop\<close> times. \<open>cl_label\<close> is the pair
  \<^verbatim>\<open>(source_name, target_name)\<close> that a collaboration client prints; a discovery
  client has none.
\<close>

record client_app =
  cl_node :: participant
  cl_remote :: InetSocketAddress
  cl_max_packets :: int
  cl_interval :: rat
  cl_packet_size :: int
  cl_start :: rat
  cl_stop :: py_float
  cl_label :: "(participant \<times> participant) option"

record DiscoveryPhaseManager =
  discovery_servers :: "server_app list"
  discovery_clients :: "client_app list"

record CollaborationPhaseManager =
  collab_servers :: "server_app list"
  collab_clients :: "client_app list"

section \<open>Address assignment\<close>

text \<open>
  \<^verbatim>\<open>NetworkStackConfigurator.assign_ip_addresses\<close> hands the configured base and mask
  to the engine's address helper; what the helper assigns is the engine's business and
  is the parameter \<open>helper\<close>.
\<close>

definition assign_ip_addresses ::
  "SimulationConfig \<Rightarrow> (Ipv4Address \<Rightarrow> Ipv4Mask \<Rightarrow> 'ifs) \<Rightarrow> 'ifs" where
  "assign_ip_addresses cfg helper =
     helper (Ipv4Address (network_base cfg)) (Ipv4Mask (network_mask cfg))"

text \<open>
  The 32-bit value of a dotted-quad text, as the engine reads it, and the directed
  broadcast address of a subnet: the base with every host bit set.
\<close>

definition digit_of :: "char \<Rightarrow> nat option" where
  "digit_of c = (let n = (of_char c :: nat) in if 48 \<le> n \<and> n \<le> 57 then Some (n - 48) else None)"

fun parse_octets :: "string \<Rightarrow> nat \<Rightarrow> nat list \<Rightarrow> nat list option" where
  "parse_octets [] cur acc = Some (acc @ [cur])"
| "parse_octets (c # cs) cur acc =
     (if c = CHR ''.'' then parse_octets cs 0 (acc @ [cur])
      else case digit_of c of None \<Rightarrow> None | Some d \<Rightarrow> parse_octets cs (cur * 10 + d) acc)"

definition ipv4_value :: "string \<Rightarrow> 32 word option" where
  "ipv4_value s =
     (case parse_octets s 0 [] of
        Some [a, b, c, d] \<Rightarrow>
          if a \<le> 255 \<and> b \<le> 255 \<and> c \<le> 255 \<and> d \<le> 255
          then Some (word_of_nat (((a * 256 + b) * 256 + c) * 256 + d))
          else None
      | _ \<Rightarrow> None)"

definition subnet_directed_broadcast :: "string \<Rightarrow> string \<Rightarrow> 32 word option" where
  "subnet_directed_broadcast net_base net_mask =
     (case (ipv4_value net_base, ipv4_value net_mask) of
        (Some b, Some m) \<Rightarrow> Some (b OR NOT m)
      | _ \<Rightarrow> None)"

section \<open>Discovery phase\<close>

text \<open>\<^verbatim>\<open>DiscoveryPhaseManager._create_discovery_server\<close> (name and address are only printed).\<close>

definition create_discovery_server ::
  "SimulationConfig \<Rightarrow> DiscoveryPhaseManager \<Rightarrow> participant \<Rightarrow> DiscoveryPhaseManager" where
  "create_discovery_server cfg self node =
     self\<lparr>discovery_servers := discovery_servers self @
       [\<lparr>srv_node = node, srv_port = discovery_port cfg,
         srv_start = discovery_start cfg,
         srv_stop = float_add (Finite (discovery_start cfg)) (discovery_duration cfg)\<rparr>]\<rparr>"

text \<open>
  \<^verbatim>\<open>DiscoveryPhaseManager._create_discovery_client\<close>. The list \<open>all_addresses\<close> is
  received and never read.
\<close>

definition create_discovery_client ::
  "SimulationConfig \<Rightarrow> DiscoveryPhaseManager \<Rightarrow> participant \<Rightarrow> Ipv4Address list \<Rightarrow> rat
     \<Rightarrow> py_error + DiscoveryPhaseManager" where
  "create_discovery_client cfg self node all_addresses start_time =
     (let broadcast_addr = Ipv4Address ''10.1.1.255'';
          remote_address = InetSocketAddress broadcast_addr (discovery_port cfg)
      in py_bind (py_truediv (discovery_duration cfg) (discovery_interval cfg)) (\<lambda>q.
         py_bind (py_int q) (\<lambda>max_packets.
           Inr (self\<lparr>discovery_clients := discovery_clients self @
             [\<lparr>cl_node = node, cl_remote = remote_address,
               cl_max_packets = max_packets,
               cl_interval = discovery_interval cfg,
               cl_packet_size = 128,
               cl_start = start_time,
               cl_stop = float_add (Finite (discovery_start cfg)) (discovery_duration cfg),
               cl_label = None\<rparr>]\<rparr>))))"

text \<open>\<^verbatim>\<open>DiscoveryPhaseManager.setup_discovery_phase\<close>.\<close>

definition setup_discovery_phase ::
  "SimulationConfig \<Rightarrow> interfaces \<Rightarrow> interfaces \<Rightarrow> DiscoveryPhaseManager
     \<Rightarrow> py_error + DiscoveryPhaseManager" where
  "setup_discovery_phase cfg fixed_interfaces mobile_interfaces self =
     py_bind (for_loop (py_range (num_fixed_nodes cfg))
                (\<lambda>i s. Inr (create_discovery_server cfg s (Fixed, i))) self) (\<lambda>s1.
     py_bind (for_loop (py_range (num_mobile_nodes cfg))
                (\<lambda>i s. Inr (create_discovery_server cfg s (Mobile, i))) s1) (\<lambda>s2.
     let all_addresses = map fixed_interfaces (py_range (num_fixed_nodes cfg)) @
                         map mobile_interfaces (py_range (num_mobile_nodes cfg))
     in
     py_bind (for_loop (py_range (num_fixed_nodes cfg))
                (\<lambda>i s. create_discovery_client cfg s (Fixed, i) all_addresses
                          (discovery_start cfg + of_int i * (2 / 10))) s2) (\<lambda>s3.
     for_loop (py_range (num_mobile_nodes cfg))
       (\<lambda>i s. create_discovery_client cfg s (Mobile, i) all_addresses
                 (discovery_start cfg + of_int (num_fixed_nodes cfg + i) * (2 / 10))) s3)))"

section \<open>Collaboration phase\<close>

text \<open>\<^verbatim>\<open>neighbors[key].append(x)\<close> and \<^verbatim>\<open>neighbors.get(key, [])\<close>.\<close>

definition dict_append :: "neighbors \<Rightarrow> participant \<Rightarrow> neighbor \<Rightarrow> py_error + neighbors" where
  "dict_append d k x = (case d k of None \<Rightarrow> Inl KeyError | Some xs \<Rightarrow> Inr (d(k \<mapsto> xs @ [x])))"

definition dict_get :: "neighbors \<Rightarrow> participant \<Rightarrow> neighbor list \<Rightarrow> neighbor list" where
  "dict_get d k dflt = (case d k of None \<Rightarrow> dflt | Some xs \<Rightarrow> xs)"

text \<open>
  \<^verbatim>\<open>CollaborationPhaseManager._find_neighbors\<close>: the body of the loop over the fixed
  nodes, the body of the loop over the mobile nodes, and the function.
\<close>

definition find_neighbors_fixed :: "SimulationConfig \<Rightarrow> int \<Rightarrow> neighbors \<Rightarrow> py_error + neighbors" where
  "find_neighbors_fixed cfg i neighbors =
     py_bind (for_loop (py_range (num_fixed_nodes cfg))
                (\<lambda>j d. if i \<noteq> j \<and> \<bar>i - j\<bar> \<le> 1 then dict_append d (Fixed, i) (j, Fixed) else Inr d)
                (neighbors((Fixed, i) \<mapsto> []))) (\<lambda>d1.
     for_loop (py_range (min 2 (num_mobile_nodes cfg)))
       (\<lambda>j d. dict_append d (Fixed, i) (j, Mobile)) d1)"

definition find_neighbors_mobile :: "SimulationConfig \<Rightarrow> int \<Rightarrow> neighbors \<Rightarrow> py_error + neighbors" where
  "find_neighbors_mobile cfg i neighbors =
     (let d0 = neighbors((Mobile, i) \<mapsto> []) in
      py_bind (py_mod i (num_fixed_nodes cfg)) (\<lambda>fixed_neighbor.
      py_bind (dict_append d0 (Mobile, i) (fixed_neighbor, Fixed)) (\<lambda>d1.
      py_bind (py_mod (i + 1) (num_mobile_nodes cfg)) (\<lambda>next_mobile.
      if next_mobile \<noteq> i then dict_append d1 (Mobile, i) (next_mobile, Mobile) else Inr d1))))"

definition find_neighbors :: "SimulationConfig \<Rightarrow> py_error + neighbors" where
  "find_neighbors cfg =
     py_bind (for_loop (py_range (num_fixed_nodes cfg)) (find_neighbors_fixed cfg) Map.empty)
       (for_loop (py_range (num_mobile_nodes cfg)) (find_neighbors_mobile cfg))"

text \<open>\<^verbatim>\<open>CollaborationPhaseManager._create_collab_server\<close> (name and address are only printed).\<close>

definition create_collab_server ::
  "SimulationConfig \<Rightarrow> CollaborationPhaseManager \<Rightarrow> participant \<Rightarrow> int
     \<Rightarrow> CollaborationPhaseManager" where
  "create_collab_server cfg self node port =
     self\<lparr>collab_servers := collab_servers self @
       [\<lparr>srv_node = node, srv_port = port,
         srv_start = collab_start cfg,
         srv_stop = float_add (Finite (collab_start cfg)) (collab_duration cfg)\<rparr>]\<rparr>"

text \<open>\<^verbatim>\<open>CollaborationPhaseManager._create_collab_client\<close>.\<close>

definition create_collab_client ::
  "SimulationConfig \<Rightarrow> CollaborationPhaseManager \<Rightarrow> participant \<Rightarrow> Ipv4Address \<Rightarrow> int \<Rightarrow> rat
     \<Rightarrow> participant \<Rightarrow> participant \<Rightarrow> CollaborationPhaseManager" where
  "create_collab_client cfg self node target_addr target_port start_time source_name target_name =
     self\<lparr>collab_clients := collab_clients self @
       [\<lparr>cl_node = node, cl_remote = InetSocketAddress target_addr target_port,
         cl_max_packets = 10000, cl_interval = 1, cl_packet_size = 1024,
         cl_start = start_time,
         cl_stop = float_add (Finite (collab_start cfg)) (collab_duration cfg),
         cl_label = Some (source_name, target_name)\<rparr>]\<rparr>"

text \<open>
  \<^verbatim>\<open>CollaborationPhaseManager._setup_collab_connections\<close>: the inner loop of a fixed
  node, the inner loop of a mobile node, and the function.
\<close>

definition connect_fixed ::
  "SimulationConfig \<Rightarrow> interfaces \<Rightarrow> interfaces \<Rightarrow> neighbors \<Rightarrow> int
     \<Rightarrow> CollaborationPhaseManager \<Rightarrow> py_error + CollaborationPhaseManager" where
  "connect_fixed cfg fixed_interfaces mobile_interfaces neighbors i self =
     for_loop (dict_get neighbors (Fixed, i) [])
       (\<lambda>(neighbor_idx, neighbor_type) s.
          if neighbor_type = Fixed
          then Inr (create_collab_client cfg s (Fixed, i)
                 (fixed_interfaces neighbor_idx)
                 (collab_base_port cfg + neighbor_idx)
                 (collab_start cfg + of_int i * (3 / 10))
                 (Fixed, i) (Fixed, neighbor_idx))
          else Inr (create_collab_client cfg s (Fixed, i)
                 (mobile_interfaces neighbor_idx)
                 (collab_base_port cfg + num_fixed_nodes cfg + neighbor_idx)
                 (collab_start cfg + of_int i * (3 / 10))
                 (Fixed, i) (Mobile, neighbor_idx)))
       self"

definition connect_mobile ::
  "SimulationConfig \<Rightarrow> interfaces \<Rightarrow> interfaces \<Rightarrow> neighbors \<Rightarrow> int
     \<Rightarrow> CollaborationPhaseManager \<Rightarrow> py_error + CollaborationPhaseManager" where
  "connect_mobile cfg fixed_interfaces mobile_interfaces neighbors i self =
     for_loop (dict_get neighbors (Mobile, i) [])
       (\<lambda>(neighbor_idx, neighbor_type) s.
          if neighbor_type = Fixed
          then Inr (create_collab_client cfg s (Mobile, i)
                 (fixed_interfaces neighbor_idx)
                 (collab_base_port cfg + neighbor_idx)
                 (collab_start cfg + of_int (num_fixed_nodes cfg + i) * (3 / 10))
                 (Mobile, i) (Fixed, neighbor_idx))
          else Inr (create_collab_client cfg s (Mobile, i)
                 (mobile_interfaces neighbor_idx)
                 (collab_base_port cfg + num_fixed_nodes cfg + neighbor_idx)
                 (collab_start cfg + of_int (num_fixed_nodes cfg + i) * (3 / 10))
                 (Mobile, i) (Mobile, neighbor_idx)))
       self"

definition setup_collab_connections ::
  "SimulationConfig \<Rightarrow> interfaces \<Rightarrow> interfaces \<Rightarrow> CollaborationPhaseManager
     \<Rightarrow> py_error + CollaborationPhaseManager" where
  "setup_collab_connections cfg fixed_interfaces mobile_interfaces self =
     py_bind (find_neighbors cfg) (\<lambda>neighbors.
     py_bind (for_loop (py_range (num_fixed_nodes cfg))
                (connect_fixed cfg fixed_interfaces mobile_interfaces neighbors) self)
       (for_loop (py_range (num_mobile_nodes cfg))
          (connect_mobile cfg fixed_interfaces mobile_interfaces neighbors)))"

text \<open>
  \<^verbatim>\<open>CollaborationPhaseManager.setup_collaboration_phase\<close>: the two server loops, then
  the connections.
\<close>

definition setup_collab_servers ::
  "SimulationConfig \<Rightarrow> CollaborationPhaseManager \<Rightarrow> py_error + CollaborationPhaseManager" where
  "setup_collab_servers cfg self =
     py_bind (for_loop (py_range (num_fixed_nodes cfg))
                (\<lambda>i s. Inr (create_collab_server cfg s (Fixed, i) (collab_base_port cfg + i))) self)
       (for_loop (py_range (num_mobile_nodes cfg))
          (\<lambda>i s. Inr (create_collab_server cfg s (Mobile, i)
                         (collab_base_port cfg + num_fixed_nodes cfg + i))))"

definition setup_collaboration_phase ::
  "SimulationConfig \<Rightarrow> interfaces \<Rightarrow> interfaces \<Rightarrow> CollaborationPhaseManager
     \<Rightarrow> py_error + CollaborationPhaseManager" where
  "setup_collaboration_phase cfg fixed_interfaces mobile_interfaces self =
     py_bind (setup_collab_servers cfg self)
       (setup_collab_connections cfg fixed_interfaces mobile_interfaces)"

section \<open>The run\<close>

text \<open>
  \<^verbatim>\<open>Simulation.initialize\<close> builds the configuration; \<^verbatim>\<open>Simulation.setup\<close> sets up
  the discovery phase and then the collaboration phase, each manager starting with empty
  containers. The engine steps between them (nodes, radio, mobility, routing) install no
  application and are left out.
\<close>

definition Simulation_initialize :: "cli_args \<Rightarrow> SimulationConfig" where
  "Simulation_initialize args = parse_arguments SimulationConfig_init args"

definition Simulation_setup ::
  "SimulationConfig \<Rightarrow> interfaces \<Rightarrow> interfaces
     \<Rightarrow> py_error + (DiscoveryPhaseManager \<times> CollaborationPhaseManager)" where
  "Simulation_setup cfg fixed_intf mobile_intf =
     py_bind (setup_discovery_phase cfg fixed_intf mobile_intf
                \<lparr>discovery_servers = [], discovery_clients = []\<rparr>) (\<lambda>dm.
     py_bind (setup_collaboration_phase cfg fixed_intf mobile_intf
                \<lparr>collab_servers = [], collab_clients = []\<rparr>) (\<lambda>cm.
     Inr (dm, cm)))"

definition main :: "cli_args \<Rightarrow> interfaces \<Rightarrow> interfaces
     \<Rightarrow> py_error + (DiscoveryPhaseManager \<times> CollaborationPhaseManager)" where
  "main args fixed_intf mobile_intf = Simulation_setup (Simulation_initialize args) fixed_intf mobile_intf"

section \<open>The rules of the specification\<close>

text \<open>
  The ordered participant sequence (fixed first, then mobile) and the global index of a
  participant in it.
\<close>

definition allParticipants :: "int \<Rightarrow> int \<Rightarrow> participant list" where
  "allParticipants F M = map (Pair Fixed) (py_range F) @ map (Pair Mobile) (py_range M)"

fun globalIndex :: "int \<Rightarrow> participant \<Rightarrow> int" where
  "globalIndex F (Fixed, i) = i"
| "globalIndex F (Mobile, i) = F + i"

text \<open>
  The adjacency rule as the specification words it: \<open>adjacent F M p q\<close> holds when
  participant \<open>q\<close> is a neighbour of participant \<open>p\<close>.
\<close>

fun adjacent :: "int \<Rightarrow> int \<Rightarrow> participant \<Rightarrow> participant \<Rightarrow> bool" where
  "adjacent F M (Fixed, i) (Fixed, j) = (0 \<le> j \<and> j < F \<and> i \<noteq> j \<and> \<bar>i - j\<bar> \<le> 1)"
| "adjacent F M (Fixed, i) (Mobile, j) = (0 \<le> j \<and> j < min 2 M)"
| "adjacent F M (Mobile, i) (Fixed, j) = (j = i mod F)"
| "adjacent F M (Mobile, i) (Mobile, j) = (j = (i + 1) mod M \<and> j \<noteq> i)"

text \<open>The edges stored for a participant, as participants.\<close>

definition edges_of :: "neighbors \<Rightarrow> participant \<Rightarrow> participant list" where
  "edges_of d p = map prod.swap (dict_get d p [])"

section \<open>Closed forms\<close>

text \<open>
  What the two loop bodies of \<open>find_neighbors\<close> store for index \<open>i\<close>, and the whole
  dictionary; they are proved equal to the loops below.
\<close>

definition fixed_entry :: "int \<Rightarrow> int \<Rightarrow> int \<Rightarrow> neighbor list" where
  "fixed_entry F M i =
     map (\<lambda>j. (j, Fixed)) (filter (\<lambda>j. i \<noteq> j \<and> \<bar>i - j\<bar> \<le> 1) (py_range F)) @
     map (\<lambda>j. (j, Mobile)) (py_range (min 2 M))"

definition mobile_entry :: "int \<Rightarrow> int \<Rightarrow> int \<Rightarrow> neighbor list" where
  "mobile_entry F M i =
     (i mod F, Fixed) # (if (i + 1) mod M \<noteq> i then [((i + 1) mod M, Mobile)] else [])"

definition topology :: "int \<Rightarrow> int \<Rightarrow> neighbors" where
  "topology F M = (\<lambda>(t, i).
     case t of
       Fixed \<Rightarrow> if 0 \<le> i \<and> i < F then Some (fixed_entry F M i) else None
     | Mobile \<Rightarrow> if 0 \<le> i \<and> i < M then Some (mobile_entry F M i) else None)"

text \<open>
  The packet count a discovery client is given (or the exception of computing it), the
  server and the client that the phase managers install for a participant, and the list
  of collaboration clients installed for a neighbour dictionary; they are proved equal to
  what the loops build.
\<close>

definition discovery_server_for :: "SimulationConfig \<Rightarrow> participant \<Rightarrow> server_app" where
  "discovery_server_for cfg p =
     \<lparr>srv_node = p, srv_port = discovery_port cfg,
      srv_start = discovery_start cfg,
      srv_stop = float_add (Finite (discovery_start cfg)) (discovery_duration cfg)\<rparr>"

definition discovery_max_packets :: "SimulationConfig \<Rightarrow> py_error + int" where
  "discovery_max_packets cfg =
     py_bind (py_truediv (discovery_duration cfg) (discovery_interval cfg)) py_int"

definition discovery_client_for :: "SimulationConfig \<Rightarrow> int \<Rightarrow> participant \<Rightarrow> client_app" where
  "discovery_client_for cfg n p =
     \<lparr>cl_node = p,
      cl_remote = InetSocketAddress (Ipv4Address ''10.1.1.255'') (discovery_port cfg),
      cl_max_packets = n,
      cl_interval = discovery_interval cfg,
      cl_packet_size = 128,
      cl_start = discovery_start cfg + of_int (globalIndex (num_fixed_nodes cfg) p) * (2 / 10),
      cl_stop = float_add (Finite (discovery_start cfg)) (discovery_duration cfg),
      cl_label = None\<rparr>"

definition collab_server_for :: "SimulationConfig \<Rightarrow> participant \<Rightarrow> server_app" where
  "collab_server_for cfg p =
     \<lparr>srv_node = p, srv_port = collab_base_port cfg + globalIndex (num_fixed_nodes cfg) p,
      srv_start = collab_start cfg,
      srv_stop = float_add (Finite (collab_start cfg)) (collab_duration cfg)\<rparr>"

definition collab_client_for ::
  "SimulationConfig \<Rightarrow> interfaces \<Rightarrow> interfaces \<Rightarrow> participant \<Rightarrow> neighbor \<Rightarrow> client_app" where
  "collab_client_for cfg fixed_interfaces mobile_interfaces p n =
     \<lparr>cl_node = p,
      cl_remote = InetSocketAddress
        ((case snd n of Fixed \<Rightarrow> fixed_interfaces | Mobile \<Rightarrow> mobile_interfaces) (fst n))
        (collab_base_port cfg + globalIndex (num_fixed_nodes cfg) (prod.swap n)),
      cl_max_packets = 10000, cl_interval = 1, cl_packet_size = 1024,
      cl_start = collab_start cfg + of_int (globalIndex (num_fixed_nodes cfg) p) * (3 / 10),
      cl_stop = float_add (Finite (collab_start cfg)) (collab_duration cfg),
      cl_label = Some (p, prod.swap n)\<rparr>"

definition collab_clients_of ::
  "SimulationConfig \<Rightarrow> interfaces \<Rightarrow> interfaces \<Rightarrow> neighbors \<Rightarrow> client_app list" where
  "collab_clients_of cfg fixed_interfaces mobile_interfaces d =
     concat (map (\<lambda>p. map (collab_client_for cfg fixed_interfaces mobile_interfaces p)
                          (dict_get d p []))
               (allParticipants (num_fixed_nodes cfg) (num_mobile_nodes cfg)))"

text \<open>An interface container in which every index has the same address (for examples).\<close>

definition const_interfaces :: "Ipv4Address \<Rightarrow> interfaces" where
  "const_interfaces a i = a"

section \<open>Loops and dictionaries\<close>

lemma py_bind_Inr [simp]: "py_bind (Inr x) f = f x"
  by (simp add: py_bind_def)

lemma py_bind_Inl [simp]: "py_bind (Inl e) f = Inl e"
  by (simp add: py_bind_def)

lemma set_py_range [simp]: "set (py_range n) = {0..<n}"
  by (auto simp: py_range_def)

lemma for_loop_fold:
  "(\<And>x s. x \<in> set xs \<Longrightarrow> body x s = Inr (f x s)) \<Longrightarrow> for_loop xs body s = Inr (fold f xs s)"
  by (induction xs arbitrary: s) simp_all

lemma for_loop_dict_append:
  "d k = Some xs \<Longrightarrow>
   for_loop js (\<lambda>j d. if P j then dict_append d k (g j) else Inr d) d =
     Inr (d(k \<mapsto> xs @ map g (filter P js)))"
proof (induction js arbitrary: d xs)
  case Nil
  then show ?case by (simp add: map_upd_triv)
next
  case (Cons j js)
  show ?case
  proof (cases "P j")
    case True
    have "(d(k \<mapsto> xs @ [g j])) k = Some (xs @ [g j])" by simp
    note step = Cons.IH [where d = "d(k \<mapsto> xs @ [g j])" and xs = "xs @ [g j]", OF this,
        unfolded fun_upd_upd append_assoc append_Cons append_Nil]
    have da: "dict_append d k (g j) = Inr (d(k \<mapsto> xs @ [g j]))"
      using Cons.prems by (simp add: dict_append_def)
    show ?thesis
      by (simp only: for_loop.simps True if_True da sum.case step filter.simps list.map)
  next
    case False
    note step = Cons.IH [where d = d and xs = xs, OF Cons.prems]
    show ?thesis
      by (simp only: for_loop.simps False if_False sum.case step filter.simps)
  qed
qed

lemma find_neighbors_fixed_eq:
  "find_neighbors_fixed cfg i d =
     Inr (d((Fixed, i) \<mapsto> fixed_entry (num_fixed_nodes cfg) (num_mobile_nodes cfg) i))"
proof -
  let ?F = "num_fixed_nodes cfg" and ?M = "num_mobile_nodes cfg"
  let ?P = "\<lambda>j. i \<noteq> j \<and> \<bar>i - j\<bar> \<le> 1"
  let ?d1 = "d((Fixed, i) \<mapsto> [] @ map (\<lambda>j. (j, Fixed)) (filter ?P (py_range ?F)))"
  have a: "for_loop (py_range ?F)
             (\<lambda>j d. if ?P j then dict_append d (Fixed, i) (j, Fixed) else Inr d)
             (d((Fixed, i) \<mapsto> [])) = Inr ?d1"
    using for_loop_dict_append [where d = "d((Fixed, i) \<mapsto> [])" and k = "(Fixed, i)" and xs = "[]"
        and P = ?P and g = "\<lambda>j. (j, Fixed)" and js = "py_range ?F"]
    by simp
  have b: "for_loop (py_range (min 2 ?M)) (\<lambda>j d. dict_append d (Fixed, i) (j, Mobile)) ?d1
           = Inr (?d1((Fixed, i) \<mapsto> map (\<lambda>j. (j, Fixed)) (filter ?P (py_range ?F)) @
                   map (\<lambda>j. (j, Mobile)) (filter (\<lambda>j. True) (py_range (min 2 ?M)))))"
    using for_loop_dict_append [where d = ?d1 and k = "(Fixed, i)"
        and xs = "map (\<lambda>j. (j, Fixed)) (filter ?P (py_range ?F))"
        and P = "\<lambda>j. True" and g = "\<lambda>j. (j, Mobile)" and js = "py_range (min 2 ?M)"]
    by simp
  show ?thesis
    unfolding find_neighbors_fixed_def a py_bind_Inr b
    by (simp add: fixed_entry_def)
qed

lemma find_neighbors_mobile_eq:
  "find_neighbors_mobile cfg i d =
     (if num_fixed_nodes cfg = 0 \<or> num_mobile_nodes cfg = 0 then Inl ZeroDivisionError
      else Inr (d((Mobile, i) \<mapsto> mobile_entry (num_fixed_nodes cfg) (num_mobile_nodes cfg) i)))"
  by (simp add: find_neighbors_mobile_def py_mod_def dict_append_def mobile_entry_def Let_def)


lemma fold_upd_lookup:
  "fold (\<lambda>i d. d((t, i) \<mapsto> v i)) xs d (t', j) =
     (if t' = t \<and> j \<in> set xs then Some (v j) else d (t', j))"
  by (induction xs arbitrary: d) auto

lemma py_range_Nil: "n \<le> 0 \<Longrightarrow> py_range n = []"
  by (simp add: py_range_def)

lemma py_range_Cons: "1 \<le> n \<Longrightarrow> py_range n = 0 # [1..n - 1]"
  by (simp add: py_range_def upto_rec1)

lemma fixed_loop_eq:
  "for_loop xs (find_neighbors_fixed cfg) d =
     Inr (fold (\<lambda>i d. d((Fixed, i) \<mapsto> fixed_entry (num_fixed_nodes cfg) (num_mobile_nodes cfg) i)) xs d)"
  by (rule for_loop_fold) (rule find_neighbors_fixed_eq)

lemma mobile_loop_eq:
  assumes "num_fixed_nodes cfg \<noteq> 0" "num_mobile_nodes cfg \<noteq> 0"
  shows "for_loop xs (find_neighbors_mobile cfg) d =
     Inr (fold (\<lambda>i d. d((Mobile, i) \<mapsto> mobile_entry (num_fixed_nodes cfg) (num_mobile_nodes cfg) i)) xs d)"
  by (rule for_loop_fold) (simp add: find_neighbors_mobile_eq assms)

lemma topology_fold:
  "fold (\<lambda>i d. d((Mobile, i) \<mapsto> mobile_entry F M i)) (py_range M)
     (fold (\<lambda>i d. d((Fixed, i) \<mapsto> fixed_entry F M i)) (py_range F) Map.empty) = topology F M"
proof (rule ext)
  fix p :: participant
  obtain t i where p: "p = (t, i)" by (cases p)
  show "fold (\<lambda>i d. d((Mobile, i) \<mapsto> mobile_entry F M i)) (py_range M)
     (fold (\<lambda>i d. d((Fixed, i) \<mapsto> fixed_entry F M i)) (py_range F) Map.empty) p = topology F M p"
    unfolding p by (cases t) (simp_all add: fold_upd_lookup topology_def)
qed

lemma find_neighbors_eq:
  "find_neighbors cfg =
     (if num_fixed_nodes cfg = 0 \<and> 1 \<le> num_mobile_nodes cfg then Inl ZeroDivisionError
      else Inr (topology (num_fixed_nodes cfg) (num_mobile_nodes cfg)))"
proof -
  let ?F = "num_fixed_nodes cfg" and ?M = "num_mobile_nodes cfg"
  consider (err) "?F = 0" "1 \<le> ?M" | (none) "?M \<le> 0" | (ok) "?F \<noteq> 0" "1 \<le> ?M"
    by linarith
  then show ?thesis
  proof cases
    case err
    then show ?thesis
      by (simp add: find_neighbors_def fixed_loop_eq py_range_Cons find_neighbors_mobile_eq)
  next
    case none
    have "fold (\<lambda>i d. d((Fixed, i) \<mapsto> fixed_entry ?F ?M i)) (py_range ?F) Map.empty = topology ?F ?M"
      using topology_fold [of ?F ?M] none by (simp add: py_range_Nil)
    with none show ?thesis
      by (simp add: find_neighbors_def fixed_loop_eq py_range_Nil)
  next
    case ok
    then have "?M \<noteq> 0" by simp
    with ok show ?thesis
      by (simp add: find_neighbors_def fixed_loop_eq mobile_loop_eq topology_fold)
  qed
qed


section \<open>The neighbour dictionary\<close>

lemma dom_topology: "dom (topology F M) = set (allParticipants F M)"
proof (rule set_eqI)
  fix p :: participant
  obtain t i where p: "p = (t, i)" by (cases p)
  show "p \<in> dom (topology F M) \<longleftrightarrow> p \<in> set (allParticipants F M)"
    unfolding p by (cases t) (auto simp: topology_def allParticipants_def dom_def)
qed

lemma edges_topology_Fixed:
  "0 \<le> i \<Longrightarrow> i < F \<Longrightarrow> edges_of (topology F M) (Fixed, i) = map prod.swap (fixed_entry F M i)"
  by (simp add: edges_of_def dict_get_def topology_def)

lemma edges_topology_Mobile:
  "0 \<le> i \<Longrightarrow> i < M \<Longrightarrow> edges_of (topology F M) (Mobile, i) = map prod.swap (mobile_entry F M i)"
  by (simp add: edges_of_def dict_get_def topology_def)

lemma fixed_entry_adjacent:
  "q \<in> set (map prod.swap (fixed_entry F M i)) \<longleftrightarrow> adjacent F M (Fixed, i) q"
proof -
  obtain t j where q: "q = (t, j)" by (cases q)
  show ?thesis unfolding q by (cases t) (auto simp: fixed_entry_def)
qed

lemma mobile_entry_adjacent:
  "q \<in> set (map prod.swap (mobile_entry F M i)) \<longleftrightarrow> adjacent F M (Mobile, i) q"
proof -
  obtain t j where q: "q = (t, j)" by (cases q)
  show ?thesis unfolding q by (cases t) (auto simp: mobile_entry_def)
qed

lemma distinct_fixed_entry: "distinct (fixed_entry F M i)"
  by (auto simp: fixed_entry_def distinct_map inj_on_def py_range_def)

lemma distinct_mobile_entry: "distinct (mobile_entry F M i)"
  by (simp add: mobile_entry_def)

lemma topology_adjacent:
  assumes "p \<in> set (allParticipants F M)"
  shows "q \<in> set (edges_of (topology F M) p) \<longleftrightarrow> adjacent F M p q"
proof -
  obtain t i where p: "p = (t, i)" by (cases p)
  show ?thesis
  proof (cases t)
    case Fixed
    with assms p have "0 \<le> i" "i < F" by (auto simp: allParticipants_def)
    then show ?thesis unfolding p Fixed
      by (simp only: edges_topology_Fixed fixed_entry_adjacent)
  next
    case Mobile
    with assms p have "0 \<le> i" "i < M" by (auto simp: allParticipants_def)
    then show ?thesis unfolding p Mobile
      by (simp only: edges_topology_Mobile mobile_entry_adjacent)
  qed
qed

lemma topology_distinct:
  assumes "p \<in> set (allParticipants F M)"
  shows "distinct (edges_of (topology F M) p)"
proof -
  obtain t i where p: "p = (t, i)" by (cases p)
  show ?thesis
  proof (cases t)
    case Fixed
    with assms p have "0 \<le> i" "i < F" by (auto simp: allParticipants_def)
    then show ?thesis unfolding p Fixed
      by (simp add: edges_topology_Fixed distinct_map distinct_fixed_entry)
  next
    case Mobile
    with assms p have "0 \<le> i" "i < M" by (auto simp: allParticipants_def)
    then show ?thesis unfolding p Mobile
      by (simp add: edges_topology_Mobile distinct_map distinct_mobile_entry)
  qed
qed

lemma topology_2_4_Fixed_0:
  "edges_of (topology 2 4) (Fixed, 0) = [(Fixed, 1), (Mobile, 0), (Mobile, 1)]"
  by code_simp

lemma topology_2_4_Mobile_3:
  "edges_of (topology 2 4) (Mobile, 3) = [(Fixed, 1), (Mobile, 0)]"
  by code_simp

section \<open>The installed applications\<close>

lemma fold_discovery_servers:
  "fold (\<lambda>x s. s\<lparr>discovery_servers := discovery_servers s @ [f x]\<rparr>) xs s =
     s\<lparr>discovery_servers := discovery_servers s @ map f xs\<rparr>"
  by (induction xs arbitrary: s) simp_all

lemma fold_discovery_clients:
  "fold (\<lambda>x s. s\<lparr>discovery_clients := discovery_clients s @ [f x]\<rparr>) xs s =
     s\<lparr>discovery_clients := discovery_clients s @ map f xs\<rparr>"
  by (induction xs arbitrary: s) simp_all

lemma fold_collab_servers:
  "fold (\<lambda>x s. s\<lparr>collab_servers := collab_servers s @ [f x]\<rparr>) xs s =
     s\<lparr>collab_servers := collab_servers s @ map f xs\<rparr>"
  by (induction xs arbitrary: s) simp_all

lemma fold_collab_clients:
  "fold (\<lambda>x s. s\<lparr>collab_clients := collab_clients s @ g x\<rparr>) xs s =
     s\<lparr>collab_clients := collab_clients s @ concat (map g xs)\<rparr>"
  by (induction xs arbitrary: s) simp_all

lemma discovery_server_loop:
  "for_loop xs (\<lambda>i s. Inr (create_discovery_server cfg s (k, i))) s =
     Inr (s\<lparr>discovery_servers := discovery_servers s @
            map (discovery_server_for cfg) (map (Pair k) xs)\<rparr>)"
proof -
  have "for_loop xs (\<lambda>i s. Inr (create_discovery_server cfg s (k, i))) s =
          Inr (fold (\<lambda>i s. s\<lparr>discovery_servers := discovery_servers s @
                 [discovery_server_for cfg (k, i)]\<rparr>) xs s)"
    by (rule for_loop_fold) (simp add: create_discovery_server_def discovery_server_for_def)
  then show ?thesis by (simp add: fold_discovery_servers comp_def)
qed

lemma discovery_max_packets_Finite:
  assumes "discovery_interval cfg \<noteq> 0" and "discovery_duration cfg = Finite d"
  shows "discovery_max_packets cfg =
     Inr (if 0 \<le> d / discovery_interval cfg then \<lfloor>d / discovery_interval cfg\<rfloor>
          else \<lceil>d / discovery_interval cfg\<rceil>)"
  using assms by (simp add: discovery_max_packets_def py_truediv_def py_int_def)

lemma discovery_max_packets_floor:
  assumes "0 < discovery_interval cfg" and "discovery_duration cfg = Finite d" and "0 < d"
  shows "discovery_max_packets cfg = Inr \<lfloor>d / discovery_interval cfg\<rfloor>"
  using assms by (simp add: discovery_max_packets_def py_truediv_def py_int_def)

lemma discovery_max_packets_nonfinite:
  assumes "discovery_interval cfg \<noteq> 0"
  shows "discovery_duration cfg = PosInf \<Longrightarrow> discovery_max_packets cfg = Inl OverflowError"
    and "discovery_duration cfg = NegInf \<Longrightarrow> discovery_max_packets cfg = Inl OverflowError"
    and "discovery_duration cfg = NaN \<Longrightarrow> discovery_max_packets cfg = Inl ValueError"
  using assms by (simp_all add: discovery_max_packets_def py_truediv_def py_int_def)

lemma create_discovery_client_eq:
  "create_discovery_client cfg s p addrs t =
     (case discovery_max_packets cfg of
        Inl e \<Rightarrow> Inl e
      | Inr n \<Rightarrow> Inr (s\<lparr>discovery_clients := discovery_clients s @
                          [(discovery_client_for cfg n p)\<lparr>cl_start := t\<rparr>]\<rparr>))"
  by (simp add: create_discovery_client_def discovery_max_packets_def discovery_client_for_def
      py_bind_def split: sum.splits)

lemma create_discovery_client_Fixed:
  "discovery_max_packets cfg = Inr n \<Longrightarrow>
   create_discovery_client cfg s (Fixed, i) addrs (discovery_start cfg + of_int i * (2 / 10)) =
     Inr (s\<lparr>discovery_clients := discovery_clients s @ [discovery_client_for cfg n (Fixed, i)]\<rparr>)"
  by (simp add: create_discovery_client_eq discovery_client_for_def)

lemma create_discovery_client_Mobile:
  "discovery_max_packets cfg = Inr n \<Longrightarrow>
   create_discovery_client cfg s (Mobile, i) addrs
       (discovery_start cfg + of_int (num_fixed_nodes cfg + i) * (2 / 10)) =
     Inr (s\<lparr>discovery_clients := discovery_clients s @ [discovery_client_for cfg n (Mobile, i)]\<rparr>)"
  by (simp add: create_discovery_client_eq discovery_client_for_def)

lemma discovery_client_loop_Fixed:
  assumes "discovery_max_packets cfg = Inr n"
  shows "for_loop xs (\<lambda>i s. create_discovery_client cfg s (Fixed, i) addrs
                          (discovery_start cfg + of_int i * (2 / 10))) s =
     Inr (s\<lparr>discovery_clients := discovery_clients s @
            map (discovery_client_for cfg n) (map (Pair Fixed) xs)\<rparr>)"
proof -
  have "for_loop xs (\<lambda>i s. create_discovery_client cfg s (Fixed, i) addrs
                          (discovery_start cfg + of_int i * (2 / 10))) s =
          Inr (fold (\<lambda>i s. s\<lparr>discovery_clients := discovery_clients s @
                 [discovery_client_for cfg n (Fixed, i)]\<rparr>) xs s)"
    by (rule for_loop_fold) (rule create_discovery_client_Fixed [OF assms])
  then show ?thesis by (simp add: fold_discovery_clients comp_def)
qed

lemma discovery_client_loop_Mobile:
  assumes "discovery_max_packets cfg = Inr n"
  shows "for_loop xs (\<lambda>i s. create_discovery_client cfg s (Mobile, i) addrs
                 (discovery_start cfg + of_int (num_fixed_nodes cfg + i) * (2 / 10))) s =
     Inr (s\<lparr>discovery_clients := discovery_clients s @
            map (discovery_client_for cfg n) (map (Pair Mobile) xs)\<rparr>)"
proof -
  have "for_loop xs (\<lambda>i s. create_discovery_client cfg s (Mobile, i) addrs
                 (discovery_start cfg + of_int (num_fixed_nodes cfg + i) * (2 / 10))) s =
          Inr (fold (\<lambda>i s. s\<lparr>discovery_clients := discovery_clients s @
                 [discovery_client_for cfg n (Mobile, i)]\<rparr>) xs s)"
    by (rule for_loop_fold) (rule create_discovery_client_Mobile [OF assms])
  then show ?thesis by (simp add: fold_discovery_clients comp_def)
qed

lemma setup_discovery_phase_eq:
  assumes "discovery_max_packets cfg = Inr n"
  shows "setup_discovery_phase cfg fixed_interfaces mobile_interfaces s =
     Inr (s\<lparr>discovery_servers := discovery_servers s @
              map (discovery_server_for cfg)
                (allParticipants (num_fixed_nodes cfg) (num_mobile_nodes cfg)),
            discovery_clients := discovery_clients s @
              map (discovery_client_for cfg n)
                (allParticipants (num_fixed_nodes cfg) (num_mobile_nodes cfg))\<rparr>)"
  unfolding setup_discovery_phase_def Let_def discovery_server_loop py_bind_Inr
    discovery_client_loop_Fixed [OF assms] discovery_client_loop_Mobile [OF assms]
  by (simp add: allParticipants_def)

lemma collab_server_loop_Fixed:
  "for_loop xs (\<lambda>i s. Inr (create_collab_server cfg s (Fixed, i) (collab_base_port cfg + i))) s =
     Inr (s\<lparr>collab_servers := collab_servers s @
            map (collab_server_for cfg) (map (Pair Fixed) xs)\<rparr>)"
proof -
  have "for_loop xs (\<lambda>i s. Inr (create_collab_server cfg s (Fixed, i) (collab_base_port cfg + i))) s =
          Inr (fold (\<lambda>i s. s\<lparr>collab_servers := collab_servers s @
                 [collab_server_for cfg (Fixed, i)]\<rparr>) xs s)"
    by (rule for_loop_fold) (simp add: create_collab_server_def collab_server_for_def)
  then show ?thesis by (simp add: fold_collab_servers comp_def)
qed

lemma collab_server_loop_Mobile:
  "for_loop xs (\<lambda>i s. Inr (create_collab_server cfg s (Mobile, i)
                         (collab_base_port cfg + num_fixed_nodes cfg + i))) s =
     Inr (s\<lparr>collab_servers := collab_servers s @
            map (collab_server_for cfg) (map (Pair Mobile) xs)\<rparr>)"
proof -
  have "for_loop xs (\<lambda>i s. Inr (create_collab_server cfg s (Mobile, i)
                         (collab_base_port cfg + num_fixed_nodes cfg + i))) s =
          Inr (fold (\<lambda>i s. s\<lparr>collab_servers := collab_servers s @
                 [collab_server_for cfg (Mobile, i)]\<rparr>) xs s)"
    by (rule for_loop_fold) (simp add: create_collab_server_def collab_server_for_def)
  then show ?thesis by (simp add: fold_collab_servers comp_def)
qed

lemma setup_collab_servers_eq:
  "setup_collab_servers cfg s =
     Inr (s\<lparr>collab_servers := collab_servers s @
            map (collab_server_for cfg)
              (allParticipants (num_fixed_nodes cfg) (num_mobile_nodes cfg))\<rparr>)"
  unfolding setup_collab_servers_def collab_server_loop_Fixed py_bind_Inr
    collab_server_loop_Mobile
  by (simp add: allParticipants_def)


lemma connect_fixed_body:
  "(\<lambda>(neighbor_idx, neighbor_type) s.
          if neighbor_type = Fixed
          then Inr (create_collab_client cfg s (Fixed, i)
                 (fixed_interfaces neighbor_idx)
                 (collab_base_port cfg + neighbor_idx)
                 (collab_start cfg + of_int i * (3 / 10))
                 (Fixed, i) (Fixed, neighbor_idx))
          else Inr (create_collab_client cfg s (Fixed, i)
                 (mobile_interfaces neighbor_idx)
                 (collab_base_port cfg + num_fixed_nodes cfg + neighbor_idx)
                 (collab_start cfg + of_int i * (3 / 10))
                 (Fixed, i) (Mobile, neighbor_idx))) n s =
     Inr (s\<lparr>collab_clients := collab_clients s @
            [collab_client_for cfg fixed_interfaces mobile_interfaces (Fixed, i) n]\<rparr>)"
proof -
  obtain j t where n: "n = (j, t)" by (cases n)
  show ?thesis unfolding n
    by (cases t) (simp_all add: create_collab_client_def collab_client_for_def add.assoc)
qed

lemma connect_mobile_body:
  "(\<lambda>(neighbor_idx, neighbor_type) s.
          if neighbor_type = Fixed
          then Inr (create_collab_client cfg s (Mobile, i)
                 (fixed_interfaces neighbor_idx)
                 (collab_base_port cfg + neighbor_idx)
                 (collab_start cfg + of_int (num_fixed_nodes cfg + i) * (3 / 10))
                 (Mobile, i) (Fixed, neighbor_idx))
          else Inr (create_collab_client cfg s (Mobile, i)
                 (mobile_interfaces neighbor_idx)
                 (collab_base_port cfg + num_fixed_nodes cfg + neighbor_idx)
                 (collab_start cfg + of_int (num_fixed_nodes cfg + i) * (3 / 10))
                 (Mobile, i) (Mobile, neighbor_idx))) n s =
     Inr (s\<lparr>collab_clients := collab_clients s @
            [collab_client_for cfg fixed_interfaces mobile_interfaces (Mobile, i) n]\<rparr>)"
proof -
  obtain j t where n: "n = (j, t)" by (cases n)
  show ?thesis unfolding n
    by (cases t) (simp_all add: create_collab_client_def collab_client_for_def add.assoc)
qed

lemma fold_collab_clients_single:
  "fold (\<lambda>x s. s\<lparr>collab_clients := collab_clients s @ [f x]\<rparr>) xs s =
     s\<lparr>collab_clients := collab_clients s @ map f xs\<rparr>"
  by (induction xs arbitrary: s) simp_all

lemma connect_fixed_eq:
  "connect_fixed cfg fixed_interfaces mobile_interfaces d i s =
     Inr (s\<lparr>collab_clients := collab_clients s @
            map (collab_client_for cfg fixed_interfaces mobile_interfaces (Fixed, i))
              (dict_get d (Fixed, i) [])\<rparr>)"
  unfolding connect_fixed_def
  by (subst for_loop_fold [OF connect_fixed_body]) (simp add: fold_collab_clients_single)

lemma connect_mobile_eq:
  "connect_mobile cfg fixed_interfaces mobile_interfaces d i s =
     Inr (s\<lparr>collab_clients := collab_clients s @
            map (collab_client_for cfg fixed_interfaces mobile_interfaces (Mobile, i))
              (dict_get d (Mobile, i) [])\<rparr>)"
  unfolding connect_mobile_def
  by (subst for_loop_fold [OF connect_mobile_body]) (simp add: fold_collab_clients_single)

lemma connect_loop_Fixed:
  "for_loop xs (connect_fixed cfg fixed_interfaces mobile_interfaces d) s =
     Inr (s\<lparr>collab_clients := collab_clients s @
            concat (map (\<lambda>p. map (collab_client_for cfg fixed_interfaces mobile_interfaces p)
                                 (dict_get d p [])) (map (Pair Fixed) xs))\<rparr>)"
  by (subst for_loop_fold [OF connect_fixed_eq]) (simp add: fold_collab_clients comp_def)

lemma connect_loop_Mobile:
  "for_loop xs (connect_mobile cfg fixed_interfaces mobile_interfaces d) s =
     Inr (s\<lparr>collab_clients := collab_clients s @
            concat (map (\<lambda>p. map (collab_client_for cfg fixed_interfaces mobile_interfaces p)
                                 (dict_get d p [])) (map (Pair Mobile) xs))\<rparr>)"
  by (subst for_loop_fold [OF connect_mobile_eq]) (simp add: fold_collab_clients comp_def)

lemma setup_collab_connections_eq:
  "setup_collab_connections cfg fixed_interfaces mobile_interfaces s =
     (case find_neighbors cfg of
        Inl e \<Rightarrow> Inl e
      | Inr d \<Rightarrow> Inr (s\<lparr>collab_clients := collab_clients s @
                          collab_clients_of cfg fixed_interfaces mobile_interfaces d\<rparr>))"
proof (cases "find_neighbors cfg")
  case (Inl e)
  then show ?thesis by (simp add: setup_collab_connections_def)
next
  case (Inr d)
  show ?thesis
    unfolding setup_collab_connections_def Inr py_bind_Inr connect_loop_Fixed connect_loop_Mobile
    by (simp add: collab_clients_of_def allParticipants_def)
qed

lemma setup_collaboration_phase_eq:
  "setup_collaboration_phase cfg fixed_interfaces mobile_interfaces s =
     (case find_neighbors cfg of
        Inl e \<Rightarrow> Inl e
      | Inr d \<Rightarrow> Inr (s\<lparr>collab_servers := collab_servers s @
                          map (collab_server_for cfg)
                            (allParticipants (num_fixed_nodes cfg) (num_mobile_nodes cfg)),
                        collab_clients := collab_clients s @
                          collab_clients_of cfg fixed_interfaces mobile_interfaces d\<rparr>))"
  unfolding setup_collaboration_phase_def setup_collab_servers_eq py_bind_Inr
    setup_collab_connections_eq
  by (simp split: sum.split)

lemma for_loop_raise:
  "xs \<noteq> [] \<Longrightarrow> (\<And>x s. body x s = Inl e) \<Longrightarrow> for_loop xs body s = Inl e"
  by (cases xs) simp_all

lemma create_discovery_client_raise:
  "discovery_max_packets cfg = Inl e \<Longrightarrow> create_discovery_client cfg s p addrs t = Inl e"
  by (simp add: create_discovery_client_eq)

lemma setup_discovery_phase_raise:
  assumes "discovery_max_packets cfg = Inl e"
    and "allParticipants (num_fixed_nodes cfg) (num_mobile_nodes cfg) \<noteq> []"
  shows "setup_discovery_phase cfg fixed_interfaces mobile_interfaces s = Inl e"
proof (cases "py_range (num_fixed_nodes cfg) = []")
  case False
  then show ?thesis
    unfolding setup_discovery_phase_def Let_def discovery_server_loop py_bind_Inr
    by (subst for_loop_raise [where e = e])
       (simp_all add: create_discovery_client_raise assms(1))
next
  case True
  with assms(2) have m: "py_range (num_mobile_nodes cfg) \<noteq> []"
    by (simp add: allParticipants_def)
  show ?thesis
    unfolding setup_discovery_phase_def Let_def discovery_server_loop py_bind_Inr True
      for_loop.simps
    by (subst for_loop_raise [where e = e])
       (simp_all add: create_discovery_client_raise assms(1) m)
qed

lemma setup_discovery_phase_full:
  "setup_discovery_phase cfg fixed_interfaces mobile_interfaces s =
     (case discovery_max_packets cfg of
        Inl e \<Rightarrow>
          if allParticipants (num_fixed_nodes cfg) (num_mobile_nodes cfg) \<noteq> [] then Inl e
          else Inr s
      | Inr n \<Rightarrow>
          Inr (s\<lparr>discovery_servers := discovery_servers s @
              map (discovery_server_for cfg)
                (allParticipants (num_fixed_nodes cfg) (num_mobile_nodes cfg)),
            discovery_clients := discovery_clients s @
              map (discovery_client_for cfg n)
                (allParticipants (num_fixed_nodes cfg) (num_mobile_nodes cfg))\<rparr>))"
proof (cases "discovery_max_packets cfg")
  case (Inr n)
  then show ?thesis by (simp add: setup_discovery_phase_eq)
next
  case (Inl e)
  show ?thesis
  proof (cases "allParticipants (num_fixed_nodes cfg) (num_mobile_nodes cfg) = []")
    case False
    with Inl show ?thesis by (simp add: setup_discovery_phase_raise)
  next
    case e: True
    then have "py_range (num_fixed_nodes cfg) = []" "py_range (num_mobile_nodes cfg) = []"
      by (simp_all add: allParticipants_def)
    then show ?thesis
      by (simp add: setup_discovery_phase_def e Inl Let_def)
  qed
qed

lemma upto_shift: "map (\<lambda>i. F + i) [0..M - 1] = [F..F + M - 1]"
  by (rule nth_equalityI) simp_all

lemma upto_append: "0 \<le> F \<Longrightarrow> 0 \<le> M \<Longrightarrow> [0..F + M - 1] = [0..F - 1] @ [F..F + M - 1]"
  by (rule nth_equalityI) (auto simp: nth_append)

lemma globalIndex_allParticipants:
  assumes "0 \<le> F" "0 \<le> M"
  shows "map (globalIndex F) (allParticipants F M) = py_range (F + M)"
proof -
  have "map (globalIndex F) (allParticipants F M) = [0..F - 1] @ map (\<lambda>i. F + i) [0..M - 1]"
    by (simp add: allParticipants_def py_range_def comp_def)
  then show ?thesis
    by (simp add: upto_shift upto_append [OF assms] py_range_def)
qed

lemma length_allParticipants:
  "0 \<le> F \<Longrightarrow> 0 \<le> M \<Longrightarrow> length (allParticipants F M) = nat (F + M)"
  by (simp add: allParticipants_def py_range_def nat_add_distrib)

lemma adjacent_proper:
  assumes "0 \<le> F" and "F \<noteq> 0 \<or> M \<le> 0"
    and "p \<in> set (allParticipants F M)" and "adjacent F M p q"
  shows "q \<noteq> p \<and> q \<in> set (allParticipants F M)"
proof -
  obtain t i where p: "p = (t, i)" by (cases p)
  obtain u j where q: "q = (u, j)" by (cases q)
  show ?thesis
    using assms unfolding p q
    by (cases t; cases u) (auto simp: allParticipants_def)
qed

lemma collab_clients_of_iff:
  "c \<in> set (collab_clients_of cfg fi mi d) \<longleftrightarrow>
     (\<exists>p \<in> set (allParticipants (num_fixed_nodes cfg) (num_mobile_nodes cfg)).
        \<exists>n \<in> set (dict_get d p []). c = collab_client_for cfg fi mi p n)"
  by (auto simp: collab_clients_of_def)

lemma discovery_starts:
  assumes "0 \<le> num_fixed_nodes cfg" "0 \<le> num_mobile_nodes cfg"
  shows "map cl_start (map (discovery_client_for cfg n)
            (allParticipants (num_fixed_nodes cfg) (num_mobile_nodes cfg)))
         = map (\<lambda>k. discovery_start cfg + of_int k * (2 / 10))
             (py_range (num_fixed_nodes cfg + num_mobile_nodes cfg))"
proof -
  let ?F = "num_fixed_nodes cfg" and ?M = "num_mobile_nodes cfg"
  have "map cl_start (map (discovery_client_for cfg n) (allParticipants ?F ?M))
        = map (\<lambda>k. discovery_start cfg + of_int k * (2 / 10))
            (map (globalIndex ?F) (allParticipants ?F ?M))"
    by (simp add: comp_def discovery_client_for_def)
  then show ?thesis
    by (simp only: globalIndex_allParticipants [OF assms])
qed

lemma offsets_increasing:
  fixes a :: rat
  shows "sorted_wrt (<) (map (\<lambda>k. a + of_int k * (2 / 10)) (py_range n))"
proof -
  have "sorted_wrt (\<lambda>x y. a + of_int x * (2 / 10) < a + of_int y * (2 / 10)) [0..n - 1]"
    by (rule sorted_wrt_mono_rel [OF _ sorted_wrt_upto]) simp
  then show ?thesis by (simp add: sorted_wrt_map py_range_def)
qed

lemma offsets_in_window:
  fixes a d :: rat
  assumes "(2 / 10) * of_int n < d" and "t \<in> set (map (\<lambda>k. a + of_int k * (2 / 10)) (py_range n))"
  shows "a \<le> t \<and> t < a + d"
proof -
  from assms(2) obtain k where k: "0 \<le> k" "k < n" and t: "t = a + of_int k * (2 / 10)"
    by auto
  have "(of_int k :: rat) * (2 / 10) < of_int n * (2 / 10)"
    using k by simp
  with assms(1) k show ?thesis unfolding t by simp
qed

lemma fixed_entry_no_mobile:
  "(j, t) \<in> set (fixed_entry F 0 i) \<Longrightarrow> t = Fixed"
  by (auto simp: fixed_entry_def py_range_Nil)

lemma collab_labels:
  "map cl_label (collab_clients_of cfg fixed_interfaces mobile_interfaces d)
     = concat (map (\<lambda>p. map (\<lambda>q. Some (p, q)) (edges_of d p))
         (allParticipants (num_fixed_nodes cfg) (num_mobile_nodes cfg)))"
  by (simp add: collab_clients_of_def map_concat comp_def collab_client_for_def edges_of_def)

lemma collab_client_times:
  assumes "c \<in> set (collab_clients_of cfg fixed_interfaces mobile_interfaces d)"
  shows "cl_start c = collab_start cfg + of_int (globalIndex (num_fixed_nodes cfg) (cl_node c)) * (3 / 10)"
    and "cl_stop c = float_add (Finite (collab_start cfg)) (collab_duration cfg)"
proof -
  from assms obtain p n where "c = collab_client_for cfg fixed_interfaces mobile_interfaces p n"
    by (auto simp: collab_clients_of_iff)
  then show "cl_start c = collab_start cfg + of_int (globalIndex (num_fixed_nodes cfg) (cl_node c)) * (3 / 10)"
    and "cl_stop c = float_add (Finite (collab_start cfg)) (collab_duration cfg)"
    by (simp_all add: collab_client_for_def)
qed

lemma labels_2_4:
  "concat (map (\<lambda>p. map (\<lambda>q. Some (p, q)) (edges_of (topology 2 4) p)) (allParticipants 2 4))
   = [Some ((Fixed, 0), (Fixed, 1)), Some ((Fixed, 0), (Mobile, 0)), Some ((Fixed, 0), (Mobile, 1)),
      Some ((Fixed, 1), (Fixed, 0)), Some ((Fixed, 1), (Mobile, 0)), Some ((Fixed, 1), (Mobile, 1)),
      Some ((Mobile, 0), (Fixed, 0)), Some ((Mobile, 0), (Mobile, 1)),
      Some ((Mobile, 1), (Fixed, 1)), Some ((Mobile, 1), (Mobile, 2)),
      Some ((Mobile, 2), (Fixed, 0)), Some ((Mobile, 2), (Mobile, 3)),
      Some ((Mobile, 3), (Fixed, 1)), Some ((Mobile, 3), (Mobile, 0))]"
  by code_simp

section \<open>Addresses and configurations\<close>

lemma parse_octets_broadcast: "parse_octets ''10.1.1.255'' 0 [] = Some [10, 1, 1, 255]"
  by (simp add: digit_of_def)

lemma broadcast_literal: "ipv4_value ''10.1.1.255'' = Some 167838207"
  unfolding ipv4_value_def parse_octets_broadcast by simp

lemma parse_octets_base: "parse_octets ''10.1.1.0'' 0 [] = Some [10, 1, 1, 0]"
  by (simp add: digit_of_def)

lemma parse_octets_mask: "parse_octets ''255.255.255.0'' 0 [] = Some [255, 255, 255, 0]"
  by (simp add: digit_of_def)

lemma ipv4_value_base: "ipv4_value ''10.1.1.0'' = Some 167837952"
  unfolding ipv4_value_def parse_octets_base by simp

lemma ipv4_value_mask: "ipv4_value ''255.255.255.0'' = Some 4294967040"
  unfolding ipv4_value_def parse_octets_mask by simp

lemma broadcast_word: "(167837952 :: 32 word) OR NOT 4294967040 = 167838207"
  by simp

lemma broadcast_default: "subnet_directed_broadcast ''10.1.1.0'' ''255.255.255.0'' = Some 167838207"
  unfolding subnet_directed_broadcast_def ipv4_value_base ipv4_value_mask by simp

lemma initialize_network:
  "network_base (Simulation_initialize args) = ''10.1.1.0''"
  "network_mask (Simulation_initialize args) = ''255.255.255.0''"
  by (simp_all add: Simulation_initialize_def parse_arguments_def SimulationConfig_init_def)

lemma initialize_fields:
  "num_fixed_nodes (Simulation_initialize args) = arg_or_default (arg_numFixed args) 2"
  "num_mobile_nodes (Simulation_initialize args) = arg_or_default (arg_numMobile args) 4"
  "discovery_start (Simulation_initialize args) = 2"
  "discovery_duration (Simulation_initialize args)
     = arg_or_default (arg_discoveryDuration args) (Finite 20)"
  "discovery_interval (Simulation_initialize args) = 2"
  "collab_start (Simulation_initialize args) = 25"
  "collab_duration (Simulation_initialize args)
     = arg_or_default (arg_collabDuration args) (Finite 70)"
  by (simp_all add: Simulation_initialize_def parse_arguments_def SimulationConfig_init_def)

lemma Simulation_setup_eq:
  assumes "discovery_max_packets cfg = Inr n"
  shows "Simulation_setup cfg fixed_intf mobile_intf =
     (case find_neighbors cfg of
        Inl e \<Rightarrow> Inl e
      | Inr d \<Rightarrow>
          Inr (\<lparr>discovery_servers = map (discovery_server_for cfg)
                   (allParticipants (num_fixed_nodes cfg) (num_mobile_nodes cfg)),
                discovery_clients = map (discovery_client_for cfg n)
                   (allParticipants (num_fixed_nodes cfg) (num_mobile_nodes cfg))\<rparr>,
               \<lparr>collab_servers = map (collab_server_for cfg)
                   (allParticipants (num_fixed_nodes cfg) (num_mobile_nodes cfg)),
                collab_clients = collab_clients_of cfg fixed_intf mobile_intf d\<rparr>))"
  unfolding Simulation_setup_def setup_discovery_phase_eq [OF assms] py_bind_Inr
    setup_collaboration_phase_eq
  by (simp split: sum.split)

lemma Simulation_setup_raise:
  assumes "discovery_max_packets cfg = Inl e"
    and "allParticipants (num_fixed_nodes cfg) (num_mobile_nodes cfg) \<noteq> []"
  shows "Simulation_setup cfg fixed_intf mobile_intf = Inl e"
  unfolding Simulation_setup_def setup_discovery_phase_raise [OF assms] by simp

section \<open>Claims\<close>

text \<open>
  C1. For participant counts \<open>F \<ge> 1\<close> and \<open>M \<ge> 1\<close> the neighbour computation returns a
  dictionary whose keys are exactly the participants and whose entry for a participant
  holds, without repetition, exactly the participants the adjacency rule names: for fixed
  \<open>i\<close> the fixed \<open>j \<noteq> i\<close> with \<open>|i - j| \<le> 1\<close> and the first \<open>min 2 M\<close> mobile ones; for mobile
  \<open>i\<close> the fixed \<open>i mod F\<close> and the mobile \<open>(i + 1) mod M\<close> unless that is \<open>i\<close>. The result
  depends on the two counts only. For \<open>F = 2\<close>, \<open>M = 4\<close>: Fixed-0 has Fixed-1, Mobile-0,
  Mobile-1 and Mobile-3 has Fixed-1, Mobile-0.
\<close>

theorem find_neighbors_adjacency_rule:
  assumes "1 \<le> num_fixed_nodes cfg" and "1 \<le> num_mobile_nodes cfg"
  shows "\<exists>nb. find_neighbors cfg = Inr nb
    \<and> dom nb = set (allParticipants (num_fixed_nodes cfg) (num_mobile_nodes cfg))
    \<and> (\<forall>p \<in> set (allParticipants (num_fixed_nodes cfg) (num_mobile_nodes cfg)).
         distinct (edges_of nb p)
         \<and> (\<forall>q. q \<in> set (edges_of nb p)
               \<longleftrightarrow> adjacent (num_fixed_nodes cfg) (num_mobile_nodes cfg) p q))
    \<and> (\<forall>cfg'. num_fixed_nodes cfg' = num_fixed_nodes cfg
              \<and> num_mobile_nodes cfg' = num_mobile_nodes cfg
           \<longrightarrow> find_neighbors cfg' = Inr nb)
    \<and> (num_fixed_nodes cfg = 2 \<and> num_mobile_nodes cfg = 4
         \<longrightarrow> edges_of nb (Fixed, 0) = [(Fixed, 1), (Mobile, 0), (Mobile, 1)]
           \<and> edges_of nb (Mobile, 3) = [(Fixed, 1), (Mobile, 0)])"
proof (intro exI conjI ballI allI impI)
  let ?F = "num_fixed_nodes cfg" and ?M = "num_mobile_nodes cfg"
  show "find_neighbors cfg = Inr (topology ?F ?M)"
    using assms by (simp add: find_neighbors_eq)
  show "dom (topology ?F ?M) = set (allParticipants ?F ?M)"
    by (rule dom_topology)
  show "distinct (edges_of (topology ?F ?M) p)" if "p \<in> set (allParticipants ?F ?M)" for p
    using that by (rule topology_distinct)
  show "q \<in> set (edges_of (topology ?F ?M) p) \<longleftrightarrow> adjacent ?F ?M p q"
    if "p \<in> set (allParticipants ?F ?M)" for p q
    using that by (rule topology_adjacent)
  show "find_neighbors cfg' = Inr (topology ?F ?M)"
    if "num_fixed_nodes cfg' = ?F \<and> num_mobile_nodes cfg' = ?M" for cfg'
    using that assms by (simp add: find_neighbors_eq)
  show "edges_of (topology ?F ?M) (Fixed, 0) = [(Fixed, 1), (Mobile, 0), (Mobile, 1)]"
    if "?F = 2 \<and> ?M = 4"
    using that by (simp add: topology_2_4_Fixed_0)
  show "edges_of (topology ?F ?M) (Mobile, 3) = [(Fixed, 1), (Mobile, 0)]"
    if "?F = 2 \<and> ?M = 4"
    using that by (simp add: topology_2_4_Mobile_3)
qed

theorem find_neighbors_adjacency_rule_witness:
  "1 \<le> num_fixed_nodes SimulationConfig_init \<and> 1 \<le> num_mobile_nodes SimulationConfig_init
   \<and> (\<exists>nb. find_neighbors SimulationConfig_init = Inr nb
        \<and> edges_of nb (Fixed, 0) = [(Fixed, 1), (Mobile, 0), (Mobile, 1)]
        \<and> edges_of nb (Mobile, 3) = [(Fixed, 1), (Mobile, 0)]
        \<and> (\<forall>q. q \<in> set (edges_of nb (Mobile, 3)) \<longleftrightarrow> adjacent 2 4 (Mobile, 3) q))"
proof -
  have F: "num_fixed_nodes SimulationConfig_init = 2"
    and M: "num_mobile_nodes SimulationConfig_init = 4"
    by (simp_all add: SimulationConfig_init_def)
  have m3: "(Mobile, 3) \<in> set (allParticipants 2 4)"
    by (simp add: allParticipants_def)
  from find_neighbors_adjacency_rule [of SimulationConfig_init]
  obtain nb where nb: "find_neighbors SimulationConfig_init = Inr nb"
    "\<forall>p \<in> set (allParticipants 2 4). distinct (edges_of nb p)
         \<and> (\<forall>q. q \<in> set (edges_of nb p) \<longleftrightarrow> adjacent 2 4 p q)"
    "edges_of nb (Fixed, 0) = [(Fixed, 1), (Mobile, 0), (Mobile, 1)]"
    "edges_of nb (Mobile, 3) = [(Fixed, 1), (Mobile, 0)]"
    unfolding F M by auto
  from nb(2) m3 have "\<forall>q. q \<in> set (edges_of nb (Mobile, 3)) \<longleftrightarrow> adjacent 2 4 (Mobile, 3) q"
    by blast
  with nb(1,3,4) show ?thesis unfolding F M by simp
qed

text \<open>
  C9. With no fixed participant and at least one mobile participant the neighbour
  computation returns no dictionary: \<open>i % num_fixed_nodes\<close> raises ZeroDivisionError.
\<close>

theorem find_neighbors_zero_fixed:
  assumes "num_fixed_nodes cfg = 0" and "1 \<le> num_mobile_nodes cfg"
  shows "find_neighbors cfg = Inl ZeroDivisionError"
  using assms by (simp add: find_neighbors_eq)

theorem find_neighbors_zero_fixed_witness:
  "num_fixed_nodes (SimulationConfig_init\<lparr>num_fixed_nodes := 0\<rparr>) = 0
   \<and> 1 \<le> num_mobile_nodes (SimulationConfig_init\<lparr>num_fixed_nodes := 0\<rparr>)
   \<and> find_neighbors (SimulationConfig_init\<lparr>num_fixed_nodes := 0\<rparr>) = Inl ZeroDivisionError"
  using find_neighbors_zero_fixed [of "SimulationConfig_init\<lparr>num_fixed_nodes := 0\<rparr>"]
  by (simp add: SimulationConfig_init_def)

text \<open>
  C2. With \<open>F \<ge> 0\<close> fixed and \<open>M \<ge> 0\<close> mobile participants, the collaboration server
  of a participant gets the port \<open>collab_base_port + globalIndex\<close>, the global index being
  the rank in the fixed-then-mobile order; the ports of the \<open>F + M\<close> servers are pairwise
  distinct, so there are exactly \<open>F + M\<close> of them. For \<open>F = 2\<close>, \<open>M = 4\<close> and base port
  9000 the ports of Fixed-0, Fixed-1, Mobile-0, Mobile-3 are 9000, 9001, 9002, 9005.
\<close>

theorem collab_ports_distinct:
  assumes "0 \<le> num_fixed_nodes cfg" and "0 \<le> num_mobile_nodes cfg"
  shows "\<exists>mgr. setup_collab_servers cfg \<lparr>collab_servers = [], collab_clients = []\<rparr> = Inr mgr
    \<and> map srv_node (collab_servers mgr)
        = allParticipants (num_fixed_nodes cfg) (num_mobile_nodes cfg)
    \<and> map srv_port (collab_servers mgr)
        = map (\<lambda>p. collab_base_port cfg + globalIndex (num_fixed_nodes cfg) p)
            (allParticipants (num_fixed_nodes cfg) (num_mobile_nodes cfg))
    \<and> map srv_port (collab_servers mgr)
        = map (\<lambda>k. collab_base_port cfg + k)
            (py_range (num_fixed_nodes cfg + num_mobile_nodes cfg))
    \<and> distinct (map srv_port (collab_servers mgr))
    \<and> card (set (map srv_port (collab_servers mgr)))
        = nat (num_fixed_nodes cfg + num_mobile_nodes cfg)
    \<and> (num_fixed_nodes cfg = 2 \<and> num_mobile_nodes cfg = 4 \<and> collab_base_port cfg = 9000
        \<longrightarrow> map (\<lambda>s. (srv_node s, srv_port s)) (collab_servers mgr)
            = [((Fixed, 0), 9000), ((Fixed, 1), 9001), ((Mobile, 0), 9002),
               ((Mobile, 1), 9003), ((Mobile, 2), 9004), ((Mobile, 3), 9005)])"
proof -
  let ?F = "num_fixed_nodes cfg" and ?M = "num_mobile_nodes cfg"
  let ?all = "allParticipants ?F ?M"
  let ?mgr = "\<lparr>collab_servers = map (collab_server_for cfg) ?all, collab_clients = []\<rparr>"
  have run: "setup_collab_servers cfg \<lparr>collab_servers = [], collab_clients = []\<rparr> = Inr ?mgr"
    by (simp add: setup_collab_servers_eq)
  have nodes: "map srv_node (collab_servers ?mgr) = ?all"
    by (simp add: comp_def collab_server_for_def)
  have ports: "map srv_port (collab_servers ?mgr)
      = map (\<lambda>p. collab_base_port cfg + globalIndex ?F p) ?all"
    by (simp add: comp_def collab_server_for_def)
  have "map (\<lambda>p. collab_base_port cfg + globalIndex ?F p) ?all
      = map (\<lambda>k. collab_base_port cfg + k) (map (globalIndex ?F) ?all)"
    by (simp add: comp_def)
  with ports have ranks: "map srv_port (collab_servers ?mgr)
      = map (\<lambda>k. collab_base_port cfg + k) (py_range (?F + ?M))"
    by (simp only: globalIndex_allParticipants [OF assms])
  have dist: "distinct (map srv_port (collab_servers ?mgr))"
    unfolding ranks by (simp add: distinct_map py_range_def inj_on_def)
  have "length (map srv_port (collab_servers ?mgr)) = nat (?F + ?M)"
    by (simp add: length_allParticipants [OF assms])
  with dist have card: "card (set (map srv_port (collab_servers ?mgr))) = nat (?F + ?M)"
    by (simp only: distinct_card)
  have ex: "map (\<lambda>s. (srv_node s, srv_port s)) (collab_servers ?mgr)
            = [((Fixed, 0), 9000), ((Fixed, 1), 9001), ((Mobile, 0), 9002),
               ((Mobile, 1), 9003), ((Mobile, 2), 9004), ((Mobile, 3), 9005)]"
    if "?F = 2 \<and> ?M = 4 \<and> collab_base_port cfg = 9000"
    using that
    by (simp add: comp_def collab_server_for_def allParticipants_def py_range_def upto.simps)
  show ?thesis
  proof (intro exI conjI impI)
    show "setup_collab_servers cfg \<lparr>collab_servers = [], collab_clients = []\<rparr> = Inr ?mgr"
      by (rule run)
    show "map srv_node (collab_servers ?mgr) = ?all"
      by (rule nodes)
    show "map srv_port (collab_servers ?mgr)
      = map (\<lambda>p. collab_base_port cfg + globalIndex ?F p) ?all"
      by (rule ports)
    show "map srv_port (collab_servers ?mgr)
      = map (\<lambda>k. collab_base_port cfg + k) (py_range (?F + ?M))"
      by (rule ranks)
    show "distinct (map srv_port (collab_servers ?mgr))"
      by (rule dist)
    show "card (set (map srv_port (collab_servers ?mgr))) = nat (?F + ?M)"
      by (rule card)
    show "map (\<lambda>s. (srv_node s, srv_port s)) (collab_servers ?mgr)
            = [((Fixed, 0), 9000), ((Fixed, 1), 9001), ((Mobile, 0), 9002),
               ((Mobile, 1), 9003), ((Mobile, 2), 9004), ((Mobile, 3), 9005)]"
      if "?F = 2 \<and> ?M = 4 \<and> collab_base_port cfg = 9000"
      using that by (rule ex)
  qed
qed

theorem collab_ports_distinct_witness:
  "0 \<le> num_fixed_nodes SimulationConfig_init \<and> 0 \<le> num_mobile_nodes SimulationConfig_init
   \<and> (\<exists>mgr. setup_collab_servers SimulationConfig_init
               \<lparr>collab_servers = [], collab_clients = []\<rparr> = Inr mgr
        \<and> distinct (map srv_port (collab_servers mgr))
        \<and> card (set (map srv_port (collab_servers mgr))) = 6
        \<and> map (\<lambda>s. (srv_node s, srv_port s)) (collab_servers mgr)
            = [((Fixed, 0), 9000), ((Fixed, 1), 9001), ((Mobile, 0), 9002),
               ((Mobile, 1), 9003), ((Mobile, 2), 9004), ((Mobile, 3), 9005)])"
proof -
  have c: "num_fixed_nodes SimulationConfig_init = 2"
    "num_mobile_nodes SimulationConfig_init = 4"
    "collab_base_port SimulationConfig_init = 9000"
    by (simp_all add: SimulationConfig_init_def)
  from collab_ports_distinct [of SimulationConfig_init]
  obtain mgr where
    "setup_collab_servers SimulationConfig_init \<lparr>collab_servers = [], collab_clients = []\<rparr>
       = Inr mgr"
    "distinct (map srv_port (collab_servers mgr))"
    "card (set (map srv_port (collab_servers mgr))) = nat (2 + 4)"
    "map (\<lambda>s. (srv_node s, srv_port s)) (collab_servers mgr)
       = [((Fixed, 0), 9000), ((Fixed, 1), 9001), ((Mobile, 0), 9002),
          ((Mobile, 1), 9003), ((Mobile, 2), 9004), ((Mobile, 3), 9005)]"
    unfolding c by auto
  then show ?thesis unfolding c by (intro conjI exI [of _ mgr]) simp_all
qed

text \<open>
  C3, as the specification states it: for every spacing \<open>s > 0\<close> the scheduler gives the
  participant at global index \<open>k\<close> the start offset \<open>window.start + k * s\<close>. The spacing is
  not a parameter of the scheduler: for the spacing \<open>s = 0.3\<close> and the default run, the
  participant at global index 1 (Fixed-1) starts at 2.2, which is not \<open>2 + 1 * 0.3\<close>.
\<close>

theorem discovery_spacing_counterexample:
  "(0 :: rat) < 3 / 10
   \<and> \<not> isl (setup_discovery_phase SimulationConfig_init
               (const_interfaces (Ipv4Address ''10.1.1.1''))
               (const_interfaces (Ipv4Address ''10.1.1.3''))
               \<lparr>discovery_servers = [], discovery_clients = []\<rparr>)
   \<and> cl_node (discovery_clients (projr (setup_discovery_phase SimulationConfig_init
               (const_interfaces (Ipv4Address ''10.1.1.1''))
               (const_interfaces (Ipv4Address ''10.1.1.3''))
               \<lparr>discovery_servers = [], discovery_clients = []\<rparr>)) ! 1) = (Fixed, 1)
   \<and> cl_start (discovery_clients (projr (setup_discovery_phase SimulationConfig_init
               (const_interfaces (Ipv4Address ''10.1.1.1''))
               (const_interfaces (Ipv4Address ''10.1.1.3''))
               \<lparr>discovery_servers = [], discovery_clients = []\<rparr>)) ! 1) = 22 / 10
   \<and> cl_start (discovery_clients (projr (setup_discovery_phase SimulationConfig_init
               (const_interfaces (Ipv4Address ''10.1.1.1''))
               (const_interfaces (Ipv4Address ''10.1.1.3''))
               \<lparr>discovery_servers = [], discovery_clients = []\<rparr>)) ! 1)
       \<noteq> discovery_start SimulationConfig_init + of_int (globalIndex 2 (Fixed, 1)) * (3 / 10)"
proof -
  have n: "discovery_max_packets SimulationConfig_init = Inr 10"
    by (simp add: discovery_max_packets_def py_truediv_def py_int_def SimulationConfig_init_def)
  have c: "num_fixed_nodes SimulationConfig_init = 2" "num_mobile_nodes SimulationConfig_init = 4"
    "discovery_start SimulationConfig_init = 2"
    by (simp_all add: SimulationConfig_init_def)
  have all: "allParticipants 2 4
      = [(Fixed, 0), (Fixed, 1), (Mobile, 0), (Mobile, 1), (Mobile, 2), (Mobile, 3)]"
    by (simp add: allParticipants_def py_range_def upto.simps)
  show ?thesis
    unfolding setup_discovery_phase_eq [OF n] c all
    by (simp add: discovery_client_for_def c)
qed

text \<open>
  C3, amended. The spacing of the discovery scheduler is the constant \<open>0.2\<close> of the
  source, not a parameter. For every window start, every finite window length, a nonzero
  discovery interval and \<open>F \<ge> 0\<close>, \<open>M \<ge> 0\<close> participants, the participant at global index
  \<open>k\<close> (fixed before mobile) gets the start offset \<open>discovery_start + k * 0.2\<close>. The offsets
  strictly increase with \<open>k\<close>, and when \<open>0.2 * (F + M) < discovery_duration\<close> every offset
  lies in \<open>[discovery_start, discovery_start + discovery_duration)\<close>. For the window
  \<open>[2, 22)\<close> and 6 participants the offsets are 2.0, 2.2, 2.4, 2.6, 2.8, 3.0.
\<close>

theorem discovery_offsets:
  assumes "0 \<le> num_fixed_nodes cfg" and "0 \<le> num_mobile_nodes cfg"
    and "discovery_interval cfg \<noteq> 0" and "discovery_duration cfg = Finite d"
  shows "\<exists>mgr. setup_discovery_phase cfg fixed_interfaces mobile_interfaces
                 \<lparr>discovery_servers = [], discovery_clients = []\<rparr> = Inr mgr
    \<and> map cl_node (discovery_clients mgr)
        = allParticipants (num_fixed_nodes cfg) (num_mobile_nodes cfg)
    \<and> map cl_start (discovery_clients mgr)
        = map (\<lambda>k. discovery_start cfg + of_int k * (2 / 10))
            (py_range (num_fixed_nodes cfg + num_mobile_nodes cfg))
    \<and> sorted_wrt (<) (map cl_start (discovery_clients mgr))
    \<and> ((2 / 10) * of_int (num_fixed_nodes cfg + num_mobile_nodes cfg) < d
        \<longrightarrow> (\<forall>t \<in> set (map cl_start (discovery_clients mgr)).
              discovery_start cfg \<le> t
              \<and> t < discovery_start cfg + d))
    \<and> (num_fixed_nodes cfg = 2 \<and> num_mobile_nodes cfg = 4 \<and> discovery_start cfg = 2
        \<longrightarrow> map cl_start (discovery_clients mgr) = [2, 22 / 10, 24 / 10, 26 / 10, 28 / 10, 3])"
proof -
  let ?F = "num_fixed_nodes cfg" and ?M = "num_mobile_nodes cfg"
  let ?all = "allParticipants ?F ?M"
  obtain n where n: "discovery_max_packets cfg = Inr n"
    using discovery_max_packets_Finite [OF assms(3,4)] by blast
  let ?mgr = "\<lparr>discovery_servers = map (discovery_server_for cfg) ?all,
               discovery_clients = map (discovery_client_for cfg n) ?all\<rparr>"
  let ?offs = "map (\<lambda>k. discovery_start cfg + of_int k * (2 / 10)) (py_range (?F + ?M))"
  have starts: "map cl_start (discovery_clients ?mgr) = ?offs"
    using discovery_starts [OF assms(1,2), of n] by simp
  show ?thesis
  proof (intro exI conjI impI ballI)
    show "setup_discovery_phase cfg fixed_interfaces mobile_interfaces
            \<lparr>discovery_servers = [], discovery_clients = []\<rparr> = Inr ?mgr"
      by (simp add: setup_discovery_phase_eq [OF n])
    show "map cl_node (discovery_clients ?mgr) = ?all"
      by (simp add: comp_def discovery_client_for_def)
    show "map cl_start (discovery_clients ?mgr) = ?offs"
      by (rule starts)
    show "sorted_wrt (<) (map cl_start (discovery_clients ?mgr))"
      unfolding starts by (rule offsets_increasing)
    show "discovery_start cfg \<le> t"
      if "(2 / 10) * of_int (?F + ?M) < d"
        and "t \<in> set (map cl_start (discovery_clients ?mgr))" for t
      using offsets_in_window [OF that(1)] that(2) unfolding starts by blast
    show "t < discovery_start cfg + d"
      if "(2 / 10) * of_int (?F + ?M) < d"
        and "t \<in> set (map cl_start (discovery_clients ?mgr))" for t
      using offsets_in_window [OF that(1)] that(2) unfolding starts by blast
    show "map cl_start (discovery_clients ?mgr) = [2, 22 / 10, 24 / 10, 26 / 10, 28 / 10, 3]"
      if "?F = 2 \<and> ?M = 4 \<and> discovery_start cfg = 2"
      unfolding starts using that by (simp add: py_range_def upto.simps)
  qed
qed

theorem discovery_offsets_witness:
  "0 \<le> num_fixed_nodes SimulationConfig_init \<and> 0 \<le> num_mobile_nodes SimulationConfig_init
   \<and> discovery_interval SimulationConfig_init \<noteq> 0
   \<and> discovery_duration SimulationConfig_init = Finite 20
   \<and> (2 / 10) * of_int (num_fixed_nodes SimulationConfig_init
                         + num_mobile_nodes SimulationConfig_init)
       < (20 :: rat)
   \<and> (\<exists>mgr. setup_discovery_phase SimulationConfig_init
               (const_interfaces (Ipv4Address ''10.1.1.1''))
               (const_interfaces (Ipv4Address ''10.1.1.3''))
               \<lparr>discovery_servers = [], discovery_clients = []\<rparr> = Inr mgr
        \<and> map cl_start (discovery_clients mgr) = [2, 22 / 10, 24 / 10, 26 / 10, 28 / 10, 3]
        \<and> (\<forall>t \<in> set (map cl_start (discovery_clients mgr)). 2 \<le> t \<and> t < 22))"
proof -
  have c: "num_fixed_nodes SimulationConfig_init = 2"
    "num_mobile_nodes SimulationConfig_init = 4"
    "discovery_start SimulationConfig_init = 2"
    "discovery_duration SimulationConfig_init = Finite 20"
    "discovery_interval SimulationConfig_init = 2"
    by (simp_all add: SimulationConfig_init_def)
  from discovery_offsets [of SimulationConfig_init 20
      "const_interfaces (Ipv4Address ''10.1.1.1'')" "const_interfaces (Ipv4Address ''10.1.1.3'')"]
  obtain mgr where
    "setup_discovery_phase SimulationConfig_init
       (const_interfaces (Ipv4Address ''10.1.1.1''))
       (const_interfaces (Ipv4Address ''10.1.1.3''))
       \<lparr>discovery_servers = [], discovery_clients = []\<rparr> = Inr mgr"
    "map cl_start (discovery_clients mgr) = [2, 22 / 10, 24 / 10, 26 / 10, 28 / 10, 3]"
    "\<forall>t \<in> set (map cl_start (discovery_clients mgr)). 2 \<le> t \<and> t < 2 + 20"
    unfolding c by auto
  then show ?thesis unfolding c by (intro conjI exI [of _ mgr]) simp_all
qed

text \<open>
  C5, as the specification states it: for \<open>F \<ge> 1\<close> fixed participants and no mobile
  participant, computing the topology raises an error. It does not: with two fixed
  participants and none mobile the dictionary is returned, and Fixed-0 has the single
  neighbour Fixed-1.
\<close>

theorem no_mobile_counterexample:
  "1 \<le> num_fixed_nodes (SimulationConfig_init\<lparr>num_mobile_nodes := 0\<rparr>)
   \<and> num_mobile_nodes (SimulationConfig_init\<lparr>num_mobile_nodes := 0\<rparr>) = 0
   \<and> \<not> isl (find_neighbors (SimulationConfig_init\<lparr>num_mobile_nodes := 0\<rparr>))
   \<and> edges_of (projr (find_neighbors (SimulationConfig_init\<lparr>num_mobile_nodes := 0\<rparr>)))
         (Fixed, 0) = [(Fixed, 1)]"
proof -
  have "find_neighbors (SimulationConfig_init\<lparr>num_mobile_nodes := 0\<rparr>) = Inr (topology 2 0)"
    by (simp add: find_neighbors_eq SimulationConfig_init_def)
  moreover have "edges_of (topology 2 0) (Fixed, 0) = [(Fixed, 1)]"
    by code_simp
  ultimately show ?thesis by (simp add: SimulationConfig_init_def)
qed

text \<open>
  C5, amended. For \<open>F \<ge> 1\<close> fixed participants and no mobile participant the neighbour
  computation returns a dictionary without error: its keys are the fixed participants,
  each entry holds exactly the adjacent fixed participants, and no entry holds a mobile
  participant (\<open>range(min(2, 0))\<close> is empty).
\<close>

theorem no_mobile_no_error:
  assumes "1 \<le> num_fixed_nodes cfg" and "num_mobile_nodes cfg = 0"
  shows "\<exists>nb. find_neighbors cfg = Inr nb
    \<and> dom nb = set (map (Pair Fixed) (py_range (num_fixed_nodes cfg)))
    \<and> (\<forall>p \<in> dom nb. \<forall>q.
          q \<in> set (edges_of nb p) \<longleftrightarrow> adjacent (num_fixed_nodes cfg) 0 p q)
    \<and> (\<forall>p q. q \<in> set (edges_of nb p) \<longrightarrow> fst q = Fixed)"
proof (intro exI conjI ballI allI impI)
  let ?F = "num_fixed_nodes cfg"
  show "find_neighbors cfg = Inr (topology ?F 0)"
    using assms by (simp add: find_neighbors_eq)
  show d: "dom (topology ?F 0) = set (map (Pair Fixed) (py_range ?F))"
    by (simp add: dom_topology allParticipants_def py_range_Nil)
  show "q \<in> set (edges_of (topology ?F 0) p) \<longleftrightarrow> adjacent ?F 0 p q"
    if "p \<in> dom (topology ?F 0)" for p q
    using that by (simp only: dom_topology topology_adjacent)
  show "fst q = Fixed" if "q \<in> set (edges_of (topology ?F 0) p)" for p q
  proof -
    obtain t i where p: "p = (t, i)" by (cases p)
    obtain u j where q: "q = (u, j)" by (cases q)
    from that show ?thesis unfolding p q
      by (cases t)
        (auto simp: edges_of_def dict_get_def topology_def
              dest: fixed_entry_no_mobile split: if_splits)
  qed
qed

theorem no_mobile_no_error_witness:
  "1 \<le> num_fixed_nodes (SimulationConfig_init\<lparr>num_mobile_nodes := 0\<rparr>)
   \<and> num_mobile_nodes (SimulationConfig_init\<lparr>num_mobile_nodes := 0\<rparr>) = 0
   \<and> (\<exists>nb. find_neighbors (SimulationConfig_init\<lparr>num_mobile_nodes := 0\<rparr>) = Inr nb
        \<and> dom nb = {(Fixed, 0), (Fixed, 1)}
        \<and> (\<forall>p q. q \<in> set (edges_of nb p) \<longrightarrow> fst q = Fixed))"
proof -
  let ?c = "SimulationConfig_init\<lparr>num_mobile_nodes := 0\<rparr>"
  have c: "num_fixed_nodes ?c = 2" "num_mobile_nodes ?c = 0"
    by (simp_all add: SimulationConfig_init_def)
  have r: "set (map (Pair Fixed) (py_range 2)) = {(Fixed, 0), (Fixed, 1)}"
    by (auto simp: py_range_def)
  from no_mobile_no_error [of ?c]
  obtain nb where
    "find_neighbors ?c = Inr nb"
    "dom nb = set (map (Pair Fixed) (py_range 2))"
    "\<forall>p q. q \<in> set (edges_of nb p) \<longrightarrow> fst q = Fixed"
    unfolding c by auto
  then show ?thesis unfolding c r by (intro conjI exI [of _ nb]) simp_all
qed

text \<open>
  C8. For participant counts \<open>F \<ge> 0\<close> and \<open>M \<ge> 0\<close>, every edge of a computed neighbour
  dictionary is proper: its source is a participant, its target is a participant (fixed
  indices in \<open>[0, F)\<close>, mobile indices in \<open>[0, M)\<close>), and the target is not the source. So
  every collaboration client that is installed goes from a participant to another
  participant.
\<close>

theorem edges_proper:
  assumes "0 \<le> num_fixed_nodes cfg" and "0 \<le> num_mobile_nodes cfg"
    and "find_neighbors cfg = Inr nb"
  shows "(\<forall>p \<in> dom nb.
            p \<in> set (allParticipants (num_fixed_nodes cfg) (num_mobile_nodes cfg))
            \<and> (\<forall>q \<in> set (edges_of nb p).
                  q \<noteq> p
                  \<and> q \<in> set (allParticipants (num_fixed_nodes cfg) (num_mobile_nodes cfg))))
    \<and> (\<forall>mgr. setup_collaboration_phase cfg fixed_interfaces mobile_interfaces
                 \<lparr>collab_servers = [], collab_clients = []\<rparr> = Inr mgr
          \<longrightarrow> (\<forall>c \<in> set (collab_clients mgr). \<exists>q.
                 cl_label c = Some (cl_node c, q) \<and> q \<noteq> cl_node c
                 \<and> cl_node c \<in> set (allParticipants (num_fixed_nodes cfg) (num_mobile_nodes cfg))
                 \<and> q \<in> set (allParticipants (num_fixed_nodes cfg) (num_mobile_nodes cfg))))"
proof -
  let ?F = "num_fixed_nodes cfg" and ?M = "num_mobile_nodes cfg"
  let ?all = "allParticipants ?F ?M"
  from assms(3) have ok: "?F \<noteq> 0 \<or> ?M \<le> 0" and nb: "nb = topology ?F ?M"
    by (auto simp: find_neighbors_eq split: if_splits)
  have edge: "q \<noteq> p \<and> q \<in> set ?all" if "p \<in> set ?all" "q \<in> set (edges_of nb p)" for p q
  proof -
    from that(2) have "adjacent ?F ?M p q"
      unfolding nb by (simp only: topology_adjacent [OF that(1)])
    then show ?thesis by (rule adjacent_proper [OF assms(1) ok that(1)])
  qed
  have keys: "dom nb = set ?all"
    unfolding nb by (rule dom_topology)
  have clients: "\<exists>q. cl_label c = Some (cl_node c, q) \<and> q \<noteq> cl_node c
                 \<and> cl_node c \<in> set ?all \<and> q \<in> set ?all"
    if run: "setup_collaboration_phase cfg fixed_interfaces mobile_interfaces
                 \<lparr>collab_servers = [], collab_clients = []\<rparr> = Inr mgr"
      and c: "c \<in> set (collab_clients mgr)" for mgr c
  proof -
    from run assms(3) have "collab_clients mgr
        = collab_clients_of cfg fixed_interfaces mobile_interfaces nb"
      by (auto simp: setup_collaboration_phase_eq)
    with c obtain p n where p: "p \<in> set ?all" and n: "n \<in> set (dict_get nb p [])"
      and ceq: "c = collab_client_for cfg fixed_interfaces mobile_interfaces p n"
      by (auto simp: collab_clients_of_iff)
    from n have "prod.swap n \<in> set (edges_of nb p)"
      by (simp add: edges_of_def)
    from edge [OF p this] p show ?thesis
      unfolding ceq by (simp add: collab_client_for_def)
  qed
  show ?thesis
    using keys edge clients by blast
qed


theorem edges_proper_witness:
  "0 \<le> num_fixed_nodes SimulationConfig_init \<and> 0 \<le> num_mobile_nodes SimulationConfig_init
   \<and> find_neighbors SimulationConfig_init = Inr (topology 2 4)
   \<and> (Mobile, 3) \<in> dom (topology 2 4)
   \<and> edges_of (topology 2 4) (Mobile, 3) = [(Fixed, 1), (Mobile, 0)]
   \<and> (Mobile, 3) \<in> set (allParticipants 2 4)
   \<and> (Fixed, 1) \<in> set (allParticipants 2 4)
   \<and> (Mobile, 0) \<in> set (allParticipants 2 4)"
proof -
  have c: "num_fixed_nodes SimulationConfig_init = 2" "num_mobile_nodes SimulationConfig_init = 4"
    by (simp_all add: SimulationConfig_init_def)
  have h1: "0 \<le> num_fixed_nodes SimulationConfig_init"
    and h2: "0 \<le> num_mobile_nodes SimulationConfig_init"
    by (simp_all add: c)
  have h3: "find_neighbors SimulationConfig_init = Inr (topology 2 4)"
    by (simp add: find_neighbors_eq c)
  have d: "(Mobile, 3) \<in> dom (topology 2 4)"
    by (simp add: dom_topology allParticipants_def)
  note r = edges_proper [OF h1 h2 h3, of "const_interfaces (Ipv4Address ''10.1.1.1'')"
      "const_interfaces (Ipv4Address ''10.1.1.3'')", unfolded c, THEN conjunct1, rule_format, OF d]
  from r have p: "(Mobile, 3) \<in> set (allParticipants 2 4)"
    and q: "\<forall>q \<in> set (edges_of (topology 2 4) (Mobile, 3)).
              q \<noteq> (Mobile, 3) \<and> q \<in> set (allParticipants 2 4)"
    by blast+
  from q have "(Fixed, 1) \<in> set (allParticipants 2 4)" "(Mobile, 0) \<in> set (allParticipants 2 4)"
    unfolding topology_2_4_Mobile_3 by simp_all
  with h1 h2 h3 d p show ?thesis
    by (simp only: topology_2_4_Mobile_3 simp_thms)
qed

text \<open>
  C6. All collaboration clients of a participant start at the same time, the
  participant's own offset \<open>collab_start + globalIndex * 0.3\<close>, whatever edge they serve, and
  every collaboration client stops at \<open>collab_start + collab_duration\<close>. One client is
  installed per edge of the neighbour dictionary, in the order of the participants.
\<close>

theorem collab_clients_start_together:
  assumes "setup_collaboration_phase cfg fixed_interfaces mobile_interfaces
             \<lparr>collab_servers = [], collab_clients = []\<rparr> = Inr mgr"
  shows "(\<forall>c \<in> set (collab_clients mgr).
            cl_start c = collab_start cfg
                         + of_int (globalIndex (num_fixed_nodes cfg) (cl_node c)) * (3 / 10)
            \<and> cl_stop c = float_add (Finite (collab_start cfg)) (collab_duration cfg))
    \<and> (\<forall>c1 \<in> set (collab_clients mgr). \<forall>c2 \<in> set (collab_clients mgr).
            cl_node c1 = cl_node c2 \<longrightarrow> cl_start c1 = cl_start c2)
    \<and> (\<exists>nb. find_neighbors cfg = Inr nb
          \<and> map cl_label (collab_clients mgr)
              = concat (map (\<lambda>p. map (\<lambda>q. Some (p, q)) (edges_of nb p))
                  (allParticipants (num_fixed_nodes cfg) (num_mobile_nodes cfg))))"
proof -
  from assms obtain nb where nb: "find_neighbors cfg = Inr nb"
    and cs: "collab_clients mgr = collab_clients_of cfg fixed_interfaces mobile_interfaces nb"
    by (auto simp: setup_collaboration_phase_eq split: sum.splits)
  have times: "cl_start c = collab_start cfg
                         + of_int (globalIndex (num_fixed_nodes cfg) (cl_node c)) * (3 / 10)
            \<and> cl_stop c = float_add (Finite (collab_start cfg)) (collab_duration cfg)"
    if "c \<in> set (collab_clients mgr)" for c
    using that collab_client_times [of c cfg fixed_interfaces mobile_interfaces nb]
    unfolding cs by simp
  have same: "cl_start c1 = cl_start c2"
    if "c1 \<in> set (collab_clients mgr)" "c2 \<in> set (collab_clients mgr)"
      "cl_node c1 = cl_node c2" for c1 c2
    using times [OF that(1)] times [OF that(2)] that(3) by simp
  have labels: "map cl_label (collab_clients mgr)
              = concat (map (\<lambda>p. map (\<lambda>q. Some (p, q)) (edges_of nb p))
                  (allParticipants (num_fixed_nodes cfg) (num_mobile_nodes cfg)))"
    unfolding cs by (rule collab_labels)
  from times same nb labels show ?thesis by blast
qed

theorem collab_clients_start_together_witness:
  "\<exists>mgr. setup_collaboration_phase SimulationConfig_init
            (const_interfaces (Ipv4Address ''10.1.1.1''))
            (const_interfaces (Ipv4Address ''10.1.1.3''))
            \<lparr>collab_servers = [], collab_clients = []\<rparr> = Inr mgr
     \<and> length (collab_clients mgr) = 14
     \<and> (\<forall>c \<in> set (collab_clients mgr).
            cl_start c = 25 + of_int (globalIndex 2 (cl_node c)) * (3 / 10) \<and> cl_stop c = Finite 95)
     \<and> (\<forall>c1 \<in> set (collab_clients mgr). \<forall>c2 \<in> set (collab_clients mgr).
            cl_node c1 = cl_node c2 \<longrightarrow> cl_start c1 = cl_start c2)"
proof -
  let ?fi = "const_interfaces (Ipv4Address ''10.1.1.1'')"
  let ?mi = "const_interfaces (Ipv4Address ''10.1.1.3'')"
  let ?e = "\<lparr>collab_servers = [], collab_clients = []\<rparr>"
  have c: "num_fixed_nodes SimulationConfig_init = 2" "num_mobile_nodes SimulationConfig_init = 4"
    "collab_start SimulationConfig_init = 25" "collab_duration SimulationConfig_init = Finite 70"
    by (simp_all add: SimulationConfig_init_def)
  have nb: "find_neighbors SimulationConfig_init = Inr (topology 2 4)"
    by (simp add: find_neighbors_eq c)
  obtain mgr where run: "setup_collaboration_phase SimulationConfig_init ?fi ?mi ?e = Inr mgr"
    by (simp add: setup_collaboration_phase_eq nb)
  note r = collab_clients_start_together [OF run, unfolded c nb]
  from r have "map cl_label (collab_clients mgr)
      = concat (map (\<lambda>p. map (\<lambda>q. Some (p, q)) (edges_of (topology 2 4) p)) (allParticipants 2 4))"
    by simp
  then have "length (map cl_label (collab_clients mgr)) = 14"
    by (simp only: labels_2_4) simp
  then have len: "length (collab_clients mgr) = 14" by simp
  from r have t: "\<forall>c \<in> set (collab_clients mgr).
            cl_start c = 25 + of_int (globalIndex 2 (cl_node c)) * (3 / 10) \<and> cl_stop c = Finite 95"
    by simp
  from r have s: "\<forall>c1 \<in> set (collab_clients mgr). \<forall>c2 \<in> set (collab_clients mgr).
            cl_node c1 = cl_node c2 \<longrightarrow> cl_start c1 = cl_start c2"
    by blast
  from run len t s show ?thesis by blast
qed

text \<open>
  C7. Every participant gets one discovery client. It sends to the address
  \<^verbatim>\<open>10.1.1.255\<close> at the discovery port, whatever the addresses of the peers are; that
  address is the directed broadcast address of the subnet every run configures. With a
  positive interval and a positive (finite) window length its packet count is
  \<open>\<lfloor>discovery_duration / discovery_interval\<rfloor>\<close>, it repeats at the discovery interval, and it
  stops at \<open>discovery_start + discovery_duration\<close>, whatever its own start offset.
\<close>

theorem discovery_sender_configuration:
  assumes "0 < discovery_interval cfg" and "discovery_duration cfg = Finite d" and "0 < d"
  shows "\<exists>mgr. setup_discovery_phase cfg fixed_interfaces mobile_interfaces
                 \<lparr>discovery_servers = [], discovery_clients = []\<rparr> = Inr mgr
    \<and> map cl_node (discovery_clients mgr)
        = allParticipants (num_fixed_nodes cfg) (num_mobile_nodes cfg)
    \<and> (\<forall>c \<in> set (discovery_clients mgr).
          cl_remote c = InetSocketAddress (Ipv4Address ''10.1.1.255'') (discovery_port cfg)
          \<and> cl_max_packets c = \<lfloor>d / discovery_interval cfg\<rfloor>
          \<and> cl_interval c = discovery_interval cfg
          \<and> cl_stop c = float_add (Finite (discovery_start cfg)) (discovery_duration cfg)
          \<and> cl_stop c = Finite (discovery_start cfg + d))
    \<and> ipv4_value ''10.1.1.255''
        = subnet_directed_broadcast (network_base (Simulation_initialize args))
            (network_mask (Simulation_initialize args))
    \<and> ipv4_value ''10.1.1.255'' \<noteq> None"
proof -
  let ?all = "allParticipants (num_fixed_nodes cfg) (num_mobile_nodes cfg)"
  let ?n = "\<lfloor>d / discovery_interval cfg\<rfloor>"
  let ?mgr = "\<lparr>discovery_servers = map (discovery_server_for cfg) ?all,
               discovery_clients = map (discovery_client_for cfg ?n) ?all\<rparr>"
  have n: "discovery_max_packets cfg = Inr ?n"
    by (rule discovery_max_packets_floor [OF assms])
  show ?thesis
  proof (intro exI conjI ballI)
    show "setup_discovery_phase cfg fixed_interfaces mobile_interfaces
            \<lparr>discovery_servers = [], discovery_clients = []\<rparr> = Inr ?mgr"
      by (simp add: setup_discovery_phase_eq [OF n])
    show "map cl_node (discovery_clients ?mgr) = ?all"
      by (simp add: comp_def discovery_client_for_def)
    show "cl_remote c = InetSocketAddress (Ipv4Address ''10.1.1.255'') (discovery_port cfg)"
      if "c \<in> set (discovery_clients ?mgr)" for c
      using that by (auto simp: discovery_client_for_def)
    show "cl_max_packets c = \<lfloor>d / discovery_interval cfg\<rfloor>"
      if "c \<in> set (discovery_clients ?mgr)" for c
      using that by (auto simp: discovery_client_for_def)
    show "cl_interval c = discovery_interval cfg"
      if "c \<in> set (discovery_clients ?mgr)" for c
      using that by (auto simp: discovery_client_for_def)
    show "cl_stop c = float_add (Finite (discovery_start cfg)) (discovery_duration cfg)"
      if "c \<in> set (discovery_clients ?mgr)" for c
      using that by (auto simp: discovery_client_for_def)
    show "cl_stop c = Finite (discovery_start cfg + d)"
      if "c \<in> set (discovery_clients ?mgr)" for c
      using that assms(2) by (auto simp: discovery_client_for_def)
    show "ipv4_value ''10.1.1.255''
        = subnet_directed_broadcast (network_base (Simulation_initialize args))
            (network_mask (Simulation_initialize args))"
      by (simp only: initialize_network broadcast_literal broadcast_default)
    show "ipv4_value ''10.1.1.255'' \<noteq> None"
      by (simp only: broadcast_literal) simp
  qed
qed

theorem discovery_sender_configuration_witness:
  "0 < discovery_interval SimulationConfig_init
   \<and> discovery_duration SimulationConfig_init = Finite 20 \<and> (0 :: rat) < 20
   \<and> (\<exists>mgr. setup_discovery_phase SimulationConfig_init
               (const_interfaces (Ipv4Address ''10.1.1.1''))
               (const_interfaces (Ipv4Address ''10.1.1.3''))
               \<lparr>discovery_servers = [], discovery_clients = []\<rparr> = Inr mgr
        \<and> length (discovery_clients mgr) = 6
        \<and> (\<forall>c \<in> set (discovery_clients mgr).
              cl_remote c = InetSocketAddress (Ipv4Address ''10.1.1.255'') 8000
              \<and> cl_max_packets c = 10 \<and> cl_interval c = 2 \<and> cl_stop c = Finite 22))"
proof -
  let ?fi = "const_interfaces (Ipv4Address ''10.1.1.1'')"
  let ?mi = "const_interfaces (Ipv4Address ''10.1.1.3'')"
  have c: "num_fixed_nodes SimulationConfig_init = 2" "num_mobile_nodes SimulationConfig_init = 4"
    "discovery_start SimulationConfig_init = 2"
    "discovery_interval SimulationConfig_init = 2" "discovery_port SimulationConfig_init = 8000"
    by (simp_all add: SimulationConfig_init_def)
  have h1: "0 < discovery_interval SimulationConfig_init"
    by (simp add: c)
  have h2: "discovery_duration SimulationConfig_init = Finite 20"
    by (simp add: SimulationConfig_init_def)
  have h3: "(0 :: rat) < 20" by simp
  from discovery_sender_configuration [OF h1 h2 h3, of ?fi ?mi]
  obtain mgr where run: "setup_discovery_phase SimulationConfig_init ?fi ?mi
               \<lparr>discovery_servers = [], discovery_clients = []\<rparr> = Inr mgr"
    and nodes: "map cl_node (discovery_clients mgr) = allParticipants 2 4"
    and each: "\<forall>c \<in> set (discovery_clients mgr).
          cl_remote c = InetSocketAddress (Ipv4Address ''10.1.1.255'') 8000
          \<and> cl_max_packets c = \<lfloor>(20 :: rat) / 2\<rfloor>
          \<and> cl_interval c = 2
          \<and> cl_stop c = Finite (2 + 20)"
    unfolding c by blast
  have "length (map cl_node (discovery_clients mgr)) = 6"
    unfolding nodes by (simp add: allParticipants_def py_range_def)
  then have len: "length (discovery_clients mgr) = 6" by simp
  from each have each': "\<forall>c \<in> set (discovery_clients mgr).
              cl_remote c = InetSocketAddress (Ipv4Address ''10.1.1.255'') 8000
              \<and> cl_max_packets c = 10 \<and> cl_interval c = 2 \<and> cl_stop c = Finite 22"
    by simp
  from h1 h2 h3 run len each' show ?thesis by blast
qed

text \<open>
  C10. The destination of the discovery clients is the constant \<^verbatim>\<open>10.1.1.255\<close> at the
  discovery port: two configurations that differ only in \<open>network_base\<close> and
  \<open>network_mask\<close> give the same list of destinations (or the same error), whatever the
  interface addresses are, while the address helper is given the configured base and mask.
\<close>

theorem discovery_destination_constant:
  "map_sum id (\<lambda>m. map cl_remote (discovery_clients m))
     (setup_discovery_phase (cfg\<lparr>network_base := b, network_mask := m\<rparr>) fi' mi'
        \<lparr>discovery_servers = [], discovery_clients = []\<rparr>)
   = map_sum id (\<lambda>m. map cl_remote (discovery_clients m))
     (setup_discovery_phase cfg fi mi \<lparr>discovery_servers = [], discovery_clients = []\<rparr>)
   \<and> (case setup_discovery_phase cfg fi mi \<lparr>discovery_servers = [], discovery_clients = []\<rparr> of
        Inl e \<Rightarrow> True
      | Inr mgr \<Rightarrow> map cl_remote (discovery_clients mgr)
          = replicate (length (allParticipants (num_fixed_nodes cfg) (num_mobile_nodes cfg)))
              (InetSocketAddress (Ipv4Address ''10.1.1.255'') (discovery_port cfg)))
   \<and> assign_ip_addresses (cfg\<lparr>network_base := b, network_mask := m\<rparr>) helper
       = helper (Ipv4Address b) (Ipv4Mask m)"
proof -
  let ?cfg' = "cfg\<lparr>network_base := b, network_mask := m\<rparr>"
  let ?e = "\<lparr>discovery_servers = [], discovery_clients = []\<rparr>"
  have r: "map (cl_remote \<circ> discovery_client_for c n) xs
      = replicate (length xs) (InetSocketAddress (Ipv4Address ''10.1.1.255'') (discovery_port c))"
    for c n xs
    by (induction xs) (simp_all add: discovery_client_for_def)
  have p: "discovery_max_packets ?cfg' = discovery_max_packets cfg"
    by (simp add: discovery_max_packets_def)
  have same: "map_sum id (\<lambda>m. map cl_remote (discovery_clients m))
        (setup_discovery_phase ?cfg' fi' mi' ?e)
      = map_sum id (\<lambda>m. map cl_remote (discovery_clients m))
        (setup_discovery_phase cfg fi mi ?e)"
    unfolding setup_discovery_phase_full p
    by (cases "discovery_max_packets cfg") (simp_all add: r)
  have const: "(case setup_discovery_phase cfg fi mi ?e of
        Inl e \<Rightarrow> True
      | Inr mgr \<Rightarrow> map cl_remote (discovery_clients mgr)
          = replicate (length (allParticipants (num_fixed_nodes cfg) (num_mobile_nodes cfg)))
              (InetSocketAddress (Ipv4Address ''10.1.1.255'') (discovery_port cfg)))"
    unfolding setup_discovery_phase_full
    by (cases "discovery_max_packets cfg") (simp_all add: r)
  have helper: "assign_ip_addresses ?cfg' helper = helper (Ipv4Address b) (Ipv4Mask m)"
    by (simp add: assign_ip_addresses_def)
  from same const helper show ?thesis by (intro conjI)
qed

theorem discovery_destination_constant_witness:
  "map_sum id (\<lambda>m. map cl_remote (discovery_clients m))
     (setup_discovery_phase
        (SimulationConfig_init\<lparr>network_base := ''192.168.0.0'', network_mask := ''255.255.0.0''\<rparr>)
        (const_interfaces (Ipv4Address ''192.168.0.1''))
        (const_interfaces (Ipv4Address ''192.168.0.3''))
        \<lparr>discovery_servers = [], discovery_clients = []\<rparr>)
   = Inr (replicate 6 (InetSocketAddress (Ipv4Address ''10.1.1.255'') 8000))
   \<and> assign_ip_addresses
        (SimulationConfig_init\<lparr>network_base := ''192.168.0.0'', network_mask := ''255.255.0.0''\<rparr>)
        Pair
       = (Ipv4Address ''192.168.0.0'', Ipv4Mask ''255.255.0.0'')"
proof -
  let ?fi = "const_interfaces (Ipv4Address ''10.1.1.1'')"
  let ?mi = "const_interfaces (Ipv4Address ''10.1.1.3'')"
  let ?e = "\<lparr>discovery_servers = [], discovery_clients = []\<rparr>"
  have c: "num_fixed_nodes SimulationConfig_init = 2" "num_mobile_nodes SimulationConfig_init = 4"
    "discovery_interval SimulationConfig_init = 2" "discovery_port SimulationConfig_init = 8000"
    by (simp_all add: SimulationConfig_init_def)
  have i: "discovery_max_packets SimulationConfig_init = Inr 10"
    by (simp add: discovery_max_packets_def py_truediv_def py_int_def SimulationConfig_init_def)
  have len: "length (allParticipants 2 4) = 6"
    by (simp add: allParticipants_def py_range_def)
  note r = discovery_destination_constant [where cfg = SimulationConfig_init
      and b = "''192.168.0.0''" and m = "''255.255.0.0''"
      and fi' = "const_interfaces (Ipv4Address ''192.168.0.1'')"
      and mi' = "const_interfaces (Ipv4Address ''192.168.0.3'')"
      and fi = ?fi and mi = ?mi and helper = Pair]
  obtain mgr where run: "setup_discovery_phase SimulationConfig_init ?fi ?mi ?e = Inr mgr"
    by (simp add: setup_discovery_phase_eq [OF i])
  from r [THEN conjunct2, THEN conjunct1]
  have "map cl_remote (discovery_clients mgr)
      = replicate 6 (InetSocketAddress (Ipv4Address ''10.1.1.255'') 8000)"
    unfolding run c len by simp
  with r [THEN conjunct1] r [THEN conjunct2, THEN conjunct2] show ?thesis
    unfolding run by simp
qed

text \<open>
  C4, as the specification states it: a configuration whose collaboration window starts
  before the discovery window ends is rejected with an error before anything is
  scheduled. It is not: with \<^verbatim>\<open>--discoveryDuration 30\<close> the discovery window is
  \<open>[2, 32)\<close>, the collaboration window starts at 25, the run is set up without error and
  six discovery clients that stop at 32 are installed.
\<close>

theorem overlapping_windows_counterexample:
  "discovery_duration (Simulation_initialize
       \<lparr>arg_numFixed = None, arg_numMobile = None, arg_simTime = None, arg_distance = None,
        arg_pcap = False, arg_verbose = False,
        arg_discoveryDuration = Some (Finite 30), arg_collabDuration = None\<rparr>) = Finite 30
   \<and> collab_start (Simulation_initialize
       \<lparr>arg_numFixed = None, arg_numMobile = None, arg_simTime = None, arg_distance = None,
        arg_pcap = False, arg_verbose = False,
        arg_discoveryDuration = Some (Finite 30), arg_collabDuration = None\<rparr>)
     < discovery_start (Simulation_initialize
       \<lparr>arg_numFixed = None, arg_numMobile = None, arg_simTime = None, arg_distance = None,
        arg_pcap = False, arg_verbose = False,
        arg_discoveryDuration = Some (Finite 30), arg_collabDuration = None\<rparr>) + 30
   \<and> \<not> isl (main
       \<lparr>arg_numFixed = None, arg_numMobile = None, arg_simTime = None, arg_distance = None,
        arg_pcap = False, arg_verbose = False,
        arg_discoveryDuration = Some (Finite 30), arg_collabDuration = None\<rparr>
       (const_interfaces (Ipv4Address ''10.1.1.1''))
       (const_interfaces (Ipv4Address ''10.1.1.3'')))
   \<and> map cl_stop (discovery_clients (fst (projr (main
       \<lparr>arg_numFixed = None, arg_numMobile = None, arg_simTime = None, arg_distance = None,
        arg_pcap = False, arg_verbose = False,
        arg_discoveryDuration = Some (Finite 30), arg_collabDuration = None\<rparr>
       (const_interfaces (Ipv4Address ''10.1.1.1''))
       (const_interfaces (Ipv4Address ''10.1.1.3''))))))
     = [Finite 32, Finite 32, Finite 32, Finite 32, Finite 32, Finite 32]"
proof -
  let ?a = "\<lparr>arg_numFixed = None, arg_numMobile = None, arg_simTime = None, arg_distance = None,
        arg_pcap = False, arg_verbose = False,
        arg_discoveryDuration = Some (Finite 30), arg_collabDuration = None\<rparr>"
  let ?cfg = "Simulation_initialize ?a"
  have f: "num_fixed_nodes ?cfg = 2" "num_mobile_nodes ?cfg = 4" "discovery_start ?cfg = 2"
    "discovery_duration ?cfg = Finite 30" "discovery_interval ?cfg = 2" "collab_start ?cfg = 25"
    by (simp_all add: initialize_fields arg_or_default_def)
  have nb: "find_neighbors ?cfg = Inr (topology 2 4)"
    by (simp add: find_neighbors_eq f)
  have n: "discovery_max_packets ?cfg = Inr 15"
    by (simp add: discovery_max_packets_def py_truediv_def py_int_def f)
  have all: "allParticipants 2 4
      = [(Fixed, 0), (Fixed, 1), (Mobile, 0), (Mobile, 1), (Mobile, 2), (Mobile, 3)]"
    by (simp add: allParticipants_def py_range_def upto.simps)
  have stops: "map cl_stop (map (discovery_client_for ?cfg 15) (allParticipants 2 4))
      = [Finite 32, Finite 32, Finite 32, Finite 32, Finite 32, Finite 32]"
    unfolding all by (simp add: discovery_client_for_def f)
  show ?thesis
    unfolding main_def Simulation_setup_eq [OF n] nb f
    using stops by (simp add: f)
qed

text \<open>
  C4, amended. Initialisation checks nothing about the windows: it stores the given
  discovery duration unchanged beside the fixed starts 2 and 25. For every command line
  with at least one fixed participant: when the discovery duration is finite the run is
  set up without error, whether or not the windows overlap, the discovery clients stop
  at \<open>2 + discovery_duration\<close> and the collaboration servers start at 25; when it is
  \<^verbatim>\<open>inf\<close>, \<^verbatim>\<open>-inf\<close> or \<^verbatim>\<open>nan\<close> the run fails with the OverflowError or ValueError of
  \<^verbatim>\<open>int(discovery_duration / discovery_interval)\<close>, which is no check of the windows.
\<close>

theorem overlapping_windows_accepted:
  assumes "1 \<le> num_fixed_nodes (Simulation_initialize args)"
    and "0 \<le> num_mobile_nodes (Simulation_initialize args)"
  shows "discovery_start (Simulation_initialize args) = 2
    \<and> collab_start (Simulation_initialize args) = 25
    \<and> discovery_duration (Simulation_initialize args)
        = arg_or_default (arg_discoveryDuration args) (Finite 20)
    \<and> (case discovery_duration (Simulation_initialize args) of
          Finite d \<Rightarrow>
            (\<exists>dm cm. main args fixed_intf mobile_intf = Inr (dm, cm)
              \<and> map cl_node (discovery_clients dm)
                  = allParticipants (num_fixed_nodes (Simulation_initialize args))
                      (num_mobile_nodes (Simulation_initialize args))
              \<and> (\<forall>c \<in> set (discovery_clients dm). cl_stop c = Finite (2 + d))
              \<and> map srv_node (collab_servers cm)
                  = allParticipants (num_fixed_nodes (Simulation_initialize args))
                      (num_mobile_nodes (Simulation_initialize args))
              \<and> (\<forall>s \<in> set (collab_servers cm). srv_start s = 25))
        | PosInf \<Rightarrow> main args fixed_intf mobile_intf = Inl OverflowError
        | NegInf \<Rightarrow> main args fixed_intf mobile_intf = Inl OverflowError
        | NaN \<Rightarrow> main args fixed_intf mobile_intf = Inl ValueError)"
proof -
  let ?cfg = "Simulation_initialize args"
  let ?all = "allParticipants (num_fixed_nodes ?cfg) (num_mobile_nodes ?cfg)"
  have i: "discovery_interval ?cfg \<noteq> 0" by (simp add: initialize_fields)
  have nb: "find_neighbors ?cfg = Inr (topology (num_fixed_nodes ?cfg) (num_mobile_nodes ?cfg))"
    using assms by (simp add: find_neighbors_eq)
  have ne: "?all \<noteq> []"
    using assms(1) by (simp add: allParticipants_def py_range_Cons)
  have finite: "\<exists>dm cm. main args fixed_intf mobile_intf = Inr (dm, cm)
              \<and> map cl_node (discovery_clients dm) = ?all
              \<and> (\<forall>c \<in> set (discovery_clients dm). cl_stop c = Finite (2 + d))
              \<and> map srv_node (collab_servers cm) = ?all
              \<and> (\<forall>s \<in> set (collab_servers cm). srv_start s = 25)"
    if d: "discovery_duration ?cfg = Finite d" for d
  proof -
    obtain n where n: "discovery_max_packets ?cfg = Inr n"
      using discovery_max_packets_Finite [OF i d] by blast
    let ?dm = "\<lparr>discovery_servers = map (discovery_server_for ?cfg) ?all,
                discovery_clients = map (discovery_client_for ?cfg n) ?all\<rparr>"
    let ?cm = "\<lparr>collab_servers = map (collab_server_for ?cfg) ?all,
                collab_clients = collab_clients_of ?cfg fixed_intf mobile_intf
                  (topology (num_fixed_nodes ?cfg) (num_mobile_nodes ?cfg))\<rparr>"
    show ?thesis
    proof (intro exI conjI ballI)
      show "main args fixed_intf mobile_intf = Inr (?dm, ?cm)"
        unfolding main_def Simulation_setup_eq [OF n] nb by simp
      show "map cl_node (discovery_clients ?dm) = ?all"
        by (simp add: comp_def discovery_client_for_def)
      show "map srv_node (collab_servers ?cm) = ?all"
        by (simp add: comp_def collab_server_for_def)
      show "cl_stop c = Finite (2 + d)" if "c \<in> set (discovery_clients ?dm)" for c
        using that d by (auto simp: discovery_client_for_def initialize_fields)
      show "srv_start s = 25" if "s \<in> set (collab_servers ?cm)" for s
        using that by (auto simp: collab_server_for_def initialize_fields)
    qed
  qed
  have raise: "main args fixed_intf mobile_intf = Inl e"
    if "discovery_max_packets ?cfg = Inl e" for e
    unfolding main_def by (rule Simulation_setup_raise [OF that ne])
  have windows: "(case discovery_duration ?cfg of
          Finite d \<Rightarrow>
            (\<exists>dm cm. main args fixed_intf mobile_intf = Inr (dm, cm)
              \<and> map cl_node (discovery_clients dm) = ?all
              \<and> (\<forall>c \<in> set (discovery_clients dm). cl_stop c = Finite (2 + d))
              \<and> map srv_node (collab_servers cm) = ?all
              \<and> (\<forall>s \<in> set (collab_servers cm). srv_start s = 25))
        | PosInf \<Rightarrow> main args fixed_intf mobile_intf = Inl OverflowError
        | NegInf \<Rightarrow> main args fixed_intf mobile_intf = Inl OverflowError
        | NaN \<Rightarrow> main args fixed_intf mobile_intf = Inl ValueError)"
  proof (cases "discovery_duration ?cfg")
    case (Finite d)
    from finite [OF this] show ?thesis unfolding Finite by simp
  next
    case PosInf
    from raise [OF discovery_max_packets_nonfinite(1) [OF i this]] show ?thesis
      unfolding PosInf by simp
  next
    case NegInf
    from raise [OF discovery_max_packets_nonfinite(2) [OF i this]] show ?thesis
      unfolding NegInf by simp
  next
    case NaN
    from raise [OF discovery_max_packets_nonfinite(3) [OF i this]] show ?thesis
      unfolding NaN by simp
  qed
  have fields: "discovery_start ?cfg = 2" "collab_start ?cfg = 25"
      "discovery_duration ?cfg = arg_or_default (arg_discoveryDuration args) (Finite 20)"
    by (simp_all add: initialize_fields)
  from fields windows show ?thesis by (intro conjI)
qed

theorem overlapping_windows_accepted_witness:
  "1 \<le> num_fixed_nodes (Simulation_initialize
       \<lparr>arg_numFixed = None, arg_numMobile = None, arg_simTime = None, arg_distance = None,
        arg_pcap = False, arg_verbose = False,
        arg_discoveryDuration = Some (Finite 30), arg_collabDuration = None\<rparr>)
   \<and> 0 \<le> num_mobile_nodes (Simulation_initialize
       \<lparr>arg_numFixed = None, arg_numMobile = None, arg_simTime = None, arg_distance = None,
        arg_pcap = False, arg_verbose = False,
        arg_discoveryDuration = Some (Finite 30), arg_collabDuration = None\<rparr>)
   \<and> discovery_duration (Simulation_initialize
       \<lparr>arg_numFixed = None, arg_numMobile = None, arg_simTime = None, arg_distance = None,
        arg_pcap = False, arg_verbose = False,
        arg_discoveryDuration = Some (Finite 30), arg_collabDuration = None\<rparr>) = Finite 30
   \<and> (\<exists>dm cm. main
       \<lparr>arg_numFixed = None, arg_numMobile = None, arg_simTime = None, arg_distance = None,
        arg_pcap = False, arg_verbose = False,
        arg_discoveryDuration = Some (Finite 30), arg_collabDuration = None\<rparr>
       (const_interfaces (Ipv4Address ''10.1.1.1''))
       (const_interfaces (Ipv4Address ''10.1.1.3'')) = Inr (dm, cm)
        \<and> length (discovery_clients dm) = 6
        \<and> (\<forall>c \<in> set (discovery_clients dm). cl_stop c = Finite 32)
        \<and> (\<forall>s \<in> set (collab_servers cm). srv_start s = 25))
   \<and> main
       \<lparr>arg_numFixed = None, arg_numMobile = None, arg_simTime = None, arg_distance = None,
        arg_pcap = False, arg_verbose = False,
        arg_discoveryDuration = Some PosInf, arg_collabDuration = None\<rparr>
       (const_interfaces (Ipv4Address ''10.1.1.1''))
       (const_interfaces (Ipv4Address ''10.1.1.3'')) = Inl OverflowError
   \<and> main
       \<lparr>arg_numFixed = None, arg_numMobile = None, arg_simTime = None, arg_distance = None,
        arg_pcap = False, arg_verbose = False,
        arg_discoveryDuration = Some NaN, arg_collabDuration = None\<rparr>
       (const_interfaces (Ipv4Address ''10.1.1.1''))
       (const_interfaces (Ipv4Address ''10.1.1.3'')) = Inl ValueError"
proof -
  let ?a = "\<lparr>arg_numFixed = None, arg_numMobile = None, arg_simTime = None, arg_distance = None,
        arg_pcap = False, arg_verbose = False,
        arg_discoveryDuration = Some (Finite 30), arg_collabDuration = None\<rparr>"
  let ?b = "\<lparr>arg_numFixed = None, arg_numMobile = None, arg_simTime = None, arg_distance = None,
        arg_pcap = False, arg_verbose = False,
        arg_discoveryDuration = Some PosInf, arg_collabDuration = None\<rparr>"
  let ?c = "\<lparr>arg_numFixed = None, arg_numMobile = None, arg_simTime = None, arg_distance = None,
        arg_pcap = False, arg_verbose = False,
        arg_discoveryDuration = Some NaN, arg_collabDuration = None\<rparr>"
  let ?fi = "const_interfaces (Ipv4Address ''10.1.1.1'')"
  let ?mi = "const_interfaces (Ipv4Address ''10.1.1.3'')"
  have f: "num_fixed_nodes (Simulation_initialize ?a) = 2"
    "num_mobile_nodes (Simulation_initialize ?a) = 4"
    "discovery_duration (Simulation_initialize ?a) = Finite 30"
    by (simp_all add: initialize_fields arg_or_default_def)
  have g: "num_fixed_nodes (Simulation_initialize ?b) = 2"
    "num_mobile_nodes (Simulation_initialize ?b) = 4"
    "discovery_duration (Simulation_initialize ?b) = PosInf"
    by (simp_all add: initialize_fields arg_or_default_def)
  have h: "num_fixed_nodes (Simulation_initialize ?c) = 2"
    "num_mobile_nodes (Simulation_initialize ?c) = 4"
    "discovery_duration (Simulation_initialize ?c) = NaN"
    by (simp_all add: initialize_fields arg_or_default_def)
  have h1: "1 \<le> num_fixed_nodes (Simulation_initialize ?a)"
    and h2: "0 \<le> num_mobile_nodes (Simulation_initialize ?a)"
    by (simp_all add: f)
  have g1: "1 \<le> num_fixed_nodes (Simulation_initialize ?b)"
    and g2: "0 \<le> num_mobile_nodes (Simulation_initialize ?b)"
    by (simp_all add: g)
  have k1: "1 \<le> num_fixed_nodes (Simulation_initialize ?c)"
    and k2: "0 \<le> num_mobile_nodes (Simulation_initialize ?c)"
    by (simp_all add: h)
  from overlapping_windows_accepted [OF h1 h2, of ?fi ?mi]
  obtain dm cm where run: "main ?a ?fi ?mi = Inr (dm, cm)"
    and nodes: "map cl_node (discovery_clients dm) = allParticipants 2 4"
    and stops: "\<forall>c \<in> set (discovery_clients dm). cl_stop c = Finite (2 + 30)"
    and starts: "\<forall>s \<in> set (collab_servers cm). srv_start s = 25"
    unfolding f by auto
  have "length (map cl_node (discovery_clients dm)) = 6"
    unfolding nodes by (simp add: allParticipants_def py_range_def)
  then have len: "length (discovery_clients dm) = 6" by simp
  from stops have stops': "\<forall>c \<in> set (discovery_clients dm). cl_stop c = Finite 32" by simp
  from overlapping_windows_accepted [OF g1 g2, of ?fi ?mi]
  have inf: "main ?b ?fi ?mi = Inl OverflowError"
    unfolding g by simp
  from overlapping_windows_accepted [OF k1 k2, of ?fi ?mi]
  have nan: "main ?c ?fi ?mi = Inl ValueError"
    unfolding h by simp
  have ex: "\<exists>dm cm. main ?a ?fi ?mi = Inr (dm, cm)
        \<and> length (discovery_clients dm) = 6
        \<and> (\<forall>c \<in> set (discovery_clients dm). cl_stop c = Finite 32)
        \<and> (\<forall>s \<in> set (collab_servers cm). srv_start s = 25)"
    using run len stops' starts by blast
  from h1 h2 f(3) ex inf nan show ?thesis by (intro conjI)
qed

end
